theory Spec2Isabelle
  imports Complex_Main "HOL-Library.AList"
begin

section \<open>Numbers and the JavaScript idioms the analytics code relies on\<close>

text \<open>
  The analytics engine computes on JavaScript numbers. They are modelled as \<^typ>\<open>real\<close>:
  finite and exact, so rounding is not part of the model. The collectors store every
  numeric field as \<^verbatim>\<open>parseFloat(...) || 0\<close>, so a missing metric is the number 0.

  \<^verbatim>\<open>x || d\<close> on a number yields \<open>d\<close> exactly when \<open>x\<close> is falsy, that is 0.
  \<^verbatim>\<open>!x\<close> on a number is true exactly when \<open>x\<close> is 0.
\<close>

definition js_or :: "real \<Rightarrow> real \<Rightarrow> real" where
  "js_or x d = (if x = 0 then d else x)"

definition falsy :: "real \<Rightarrow> bool" where
  "falsy x = (x = 0)"

text \<open>
  \<^verbatim>\<open>x || Infinity\<close> is the one place where a non-finite number enters; it is only ever
  the second argument of \<^verbatim>\<open>Math.min\<close>, whose first argument is finite.
\<close>

datatype jsnum = Fin real | Infinity

definition or_Infinity :: "real \<Rightarrow> jsnum" where
  "or_Infinity x = (if x = 0 then Infinity else Fin x)"

fun math_min :: "real \<Rightarrow> jsnum \<Rightarrow> real" where
  "math_min a Infinity = a"
| "math_min a (Fin b) = min a b"

text \<open>\<^verbatim>\<open>values.slice(-7)\<close>: the last seven elements, or all of them when there are fewer.\<close>

definition slice_last7 :: "'a list \<Rightarrow> 'a list" where
  "slice_last7 xs = drop (length xs - 7) xs"

text \<open>
  \<^verbatim>\<open>array.sort((a, b) => key(b) - key(a))\<close>: a stable sort (ECMAScript 2019), descending
  by the key. A stable sort has one possible result, which insertion by the negated key
  computes.
\<close>

definition sort_desc :: "('a \<Rightarrow> real) \<Rightarrow> 'a list \<Rightarrow> 'a list" where
  "sort_desc key xs = sort_key (\<lambda>a. - key a) xs"

text \<open>
  \<^verbatim>\<open>new Set(keys)\<close> keeps the first occurrence of every key, in insertion order;
  \<^verbatim>\<open>set.has(k)\<close> is membership and \<^verbatim>\<open>set.size\<close> the length of that list.
\<close>

definition Set_add :: "'a \<Rightarrow> 'a list \<Rightarrow> 'a list" where
  "Set_add k s = (if k \<in> set s then s else s @ [k])"

definition new_Set :: "'a list \<Rightarrow> 'a list" where
  "new_Set ks = fold Set_add ks []"

definition Set_has :: "'a list \<Rightarrow> 'a \<Rightarrow> bool" where
  "Set_has s k = (k \<in> set s)"

section \<open>Data model\<close>

text \<open>
  An asset record as \<^verbatim>\<open>extractTokenMetrics\<close> produces it (the fields the analytics read).
  The address may be absent; the symbol is then the identity.
\<close>

record token =
  address :: "string option"
  symbol :: string
  price :: real
  volume24h :: real
  marketCap :: real
  liquidity :: real
  priceChange24h :: real
  transactions24h :: real
  buys24h :: real
  sells24h :: real

text \<open>\<^verbatim>\<open>token.address || token.symbol\<close>: an absent or empty address is falsy.\<close>

definition token_key :: "token \<Rightarrow> string" where
  "token_key t = (case address t of None \<Rightarrow> symbol t
                  | Some a \<Rightarrow> if a = [] then symbol t else a)"

text \<open>A stored daily snapshot; a file may lack its \<^verbatim>\<open>tokens\<close> array.\<close>

record dayData =
  date :: string
  tokens :: "token list option"

section \<open>PerformanceAnalyzer\<close>

datatype liquidityHealth = Healthy | Moderate | Low | Poor | Unknown

definition assessLiquidityHealth :: "real \<Rightarrow> real \<Rightarrow> liquidityHealth" where
  "assessLiquidityHealth liq mcap =
     (if falsy liq \<or> falsy mcap then Unknown
      else (let ratio = (liq / mcap) * 100
            in if ratio > 10 then Healthy
               else if ratio > 5 then Moderate
               else if ratio > 1 then Low
               else Poor))"

definition calculateBuyToSellRatio :: "real \<Rightarrow> real \<Rightarrow> real" where
  "calculateBuyToSellRatio buys sells =
     (if falsy sells \<or> sells = 0 then (if buys > 0 then 10 else 1)
      else buys / sells)"

text \<open>
  The part of \<^verbatim>\<open>calculatePerformanceMetrics\<close> that \<^verbatim>\<open>calculatePerformanceScore\<close> reads:
  \<^verbatim>\<open>pricePerformance.change24h\<close>, \<^verbatim>\<open>volumeMetrics.volumeToMcapRatio\<close>,
  \<^verbatim>\<open>liquidityMetrics.liquidityHealth\<close> and \<^verbatim>\<open>tradingMetrics.buyToSellRatio\<close>.
\<close>

record performance =
  change24h :: real
  volumeToMcapRatio :: real
  liquidityHealthOf :: liquidityHealth
  buyToSellRatio :: real

definition calculatePerformanceMetrics :: "token \<Rightarrow> performance" where
  "calculatePerformanceMetrics cur =
     \<lparr> change24h = js_or (priceChange24h cur) 0,
       volumeToMcapRatio = (if marketCap cur > 0 then (volume24h cur / marketCap cur) * 100 else 0),
       liquidityHealthOf = assessLiquidityHealth (liquidity cur) (marketCap cur),
       buyToSellRatio = calculateBuyToSellRatio (buys24h cur) (sells24h cur) \<rparr>"

subsection \<open>Statistics primitives of the analyzer\<close>

text \<open>\<^verbatim>\<open>values.reduce((a, b) => a + b, 0)\<close> is a left fold.\<close>

definition calculateConsistency :: "real list \<Rightarrow> real" where
  "calculateConsistency values =
     (if length values < 2 then 0
      else (let mean = foldl (\<lambda>a b. a + b) 0 values / real (length values);
                variance = foldl (\<lambda>a b. a + (b - mean)\<^sup>2) 0 values / real (length values);
                stdDev = sqrt variance
            in if mean > 0 then 1 - (stdDev / mean) else 0))"

text \<open>The loop of \<^verbatim>\<open>calculateVolatility\<close>: one return per step whose previous price is positive.\<close>

fun returns_loop :: "real list \<Rightarrow> real list" where
  "returns_loop (p # q # ps) =
     (if p > 0 then (q - p) / p # returns_loop (q # ps) else returns_loop (q # ps))"
| "returns_loop ps = []"

definition calculateVolatility :: "real list \<Rightarrow> real" where
  "calculateVolatility prices =
     (if length prices < 2 then 0
      else (let returns = returns_loop prices
            in if length returns = 0 then 0
               else (let mean = foldl (\<lambda>a b. a + b) 0 returns / real (length returns);
                         variance = foldl (\<lambda>a b. a + (b - mean)\<^sup>2) 0 returns / real (length returns)
                     in sqrt variance * 100)))"

subsection \<open>Sustainability\<close>

definition calculateVolumeConsistency :: "token \<Rightarrow> token list \<Rightarrow> real" where
  "calculateVolumeConsistency cur historical =
     calculateConsistency (map (\<lambda>h. js_or (volume24h h) 0) (slice_last7 historical)
                             @ [js_or (volume24h cur) 0])"

definition calculateLiquidityStability :: "token \<Rightarrow> token list \<Rightarrow> real" where
  "calculateLiquidityStability cur historical =
     calculateConsistency (map (\<lambda>h. js_or (liquidity h) 0) (slice_last7 historical)
                             @ [js_or (liquidity cur) 0])"

definition calculatePriceStability :: "token \<Rightarrow> token list \<Rightarrow> real" where
  "calculatePriceStability cur historical =
     (let prices = map (\<lambda>h. js_or (price h) 0) (slice_last7 historical) @ [js_or (price cur) 0];
          volatility = calculateVolatility prices
      in max 0 (1 - (volatility / 100)))"

datatype level = High | ModerateLevel | LowLevel | UnknownLevel

text \<open>
  The two object shapes \<^verbatim>\<open>calculateSustainability\<close> returns: the one for too little
  history (\<^verbatim>\<open>score\<close>, \<^verbatim>\<open>factors\<close>, \<^verbatim>\<open>overall\<close>) and the assessed one (three
  sub-scores and \<^verbatim>\<open>overall\<close>).
\<close>

datatype sustainability =
    InsufficientData real "string list" level
  | Assessed real real real level

fun overall :: "sustainability \<Rightarrow> level" where
  "overall (InsufficientData s fs l) = l"
| "overall (Assessed v l p lv) = lv"

definition calculateSustainability :: "token \<Rightarrow> token list \<Rightarrow> sustainability" where
  "calculateSustainability cur historical =
     (if length historical < 3 then InsufficientData 0.5 [''insufficient_data''] UnknownLevel
      else (let volumeConsistency = calculateVolumeConsistency cur historical;
                liquidityStability = calculateLiquidityStability cur historical;
                priceStability = calculatePriceStability cur historical;
                avgScore = (volumeConsistency + liquidityStability + priceStability) / 3
            in Assessed volumeConsistency liquidityStability priceStability
                 (if avgScore > 0.7 then High
                  else if avgScore < 0.3 then LowLevel
                  else ModerateLevel)))"

subsection \<open>Score and ranking\<close>

text \<open>
  A performance analysis. The momentum and strength labels and the alert list, which neither
  the score nor the ranking reads, are left out.
\<close>

record analysis =
  current :: token
  performance :: performance
  sustainabilityOf :: sustainability
  score :: real
  rank :: nat

definition calculatePerformanceScore :: "analysis \<Rightarrow> real" where
  "calculatePerformanceScore a =
     (let score0 = 50;
          priceChange = js_or (change24h (performance a)) 0;
          score1 = score0 + min (max (priceChange * 0.5) (- 25)) 25;
          volumeRatio = js_or (volumeToMcapRatio (performance a)) 0;
          score2 = score1 + min (volumeRatio * 0.3) 15;
          health = liquidityHealthOf (performance a);
          score3 = (if health = Healthy then score2 + 10
                    else if health = Moderate then score2 + 5
                    else if health = Poor then score2 - 10
                    else score2);
          ratio = js_or (buyToSellRatio (performance a)) 1;
          score4 = (if ratio > 1.2 then score3 + 5
                    else if ratio < 0.8 then score3 - 5
                    else score3)
      in max 0 (min 100 score4))"

definition analyzeTokenPerformance :: "token \<Rightarrow> token list \<Rightarrow> analysis" where
  "analyzeTokenPerformance currentData historicalData =
     (let a = \<lparr> current = currentData,
                 performance = calculatePerformanceMetrics currentData,
                 sustainabilityOf = calculateSustainability currentData historicalData,
                 score = 0,
                 rank = 0 \<rparr>
      in a\<lparr>score := calculatePerformanceScore a\<rparr>)"

text \<open>\<^verbatim>\<open>sorted.forEach((analysis, index) => analysis.rank = index + 1)\<close>.\<close>

fun assign_ranks :: "nat \<Rightarrow> analysis list \<Rightarrow> analysis list" where
  "assign_ranks index [] = []"
| "assign_ranks index (a # as) = a\<lparr>rank := index + 1\<rparr> # assign_ranks (Suc index) as"

definition rankTokens :: "analysis list \<Rightarrow> analysis list" where
  "rankTokens tokenAnalyses = assign_ranks 0 (sort_desc score tokenAnalyses)"

text \<open>
  The score as the specification words it: the buy/sell nudge is decided on the ratio
  itself.
\<close>

definition spec_score :: "real \<Rightarrow> real \<Rightarrow> liquidityHealth \<Rightarrow> real \<Rightarrow> real" where
  "spec_score priceChange volumeRatio health ratio =
     max 0 (min 100
       (50 + max (- 25) (min 25 (0.5 * priceChange))
           + min (0.3 * volumeRatio) 15
           + (case health of Healthy \<Rightarrow> 10 | Moderate \<Rightarrow> 5 | Poor \<Rightarrow> - 10 | _ \<Rightarrow> 0)
           + (if ratio > 1.2 then 5 else if ratio < 0.8 then - 5 else 0)))"

text \<open>The consistency score as the specification words it.\<close>

definition spec_consistency :: "real list \<Rightarrow> real" where
  "spec_consistency values =
     (if length values < 2 then 0
      else (let meanValue = sum_list values / real (length values);
                stdDev = sqrt (sum_list (map (\<lambda>v. (v - meanValue)\<^sup>2) values) / real (length values))
            in if meanValue > 0 then max 0 (1 - stdDev / meanValue) else 0))"

section \<open>Weekly report\<close>

text \<open>One entry of an aggregated asset's \<^verbatim>\<open>dailyData\<close>.\<close>

record dailyPoint =
  dp_date :: string
  dp_price :: real
  dp_volume24h :: real
  dp_marketCap :: real
  dp_priceChange24h :: real

text \<open>
  The accumulator of \<^verbatim>\<open>aggregateWeeklyTokenData\<close>: the spread \<^verbatim>\<open>...token\<close> is the field
  \<open>base\<close>; \<^verbatim>\<open>volumeConsistency\<close> and \<^verbatim>\<open>priceVolatility\<close> are absent until the final
  pass sets them.
\<close>

record weeklyToken =
  base :: token
  dailyData :: "dailyPoint list"
  firstSeen :: string
  lastSeen :: string
  daysActive :: nat
  avgVolume :: real
  avgMarketCap :: real
  maxMarketCap :: real
  minMarketCap :: real
  totalVolumeWeek :: real
  weeklyGrowth :: real
  volumeConsistency :: "real option"
  priceVolatility :: "real option"

definition weekly_calculateVolumeConsistency :: "dailyPoint list \<Rightarrow> real" where
  "weekly_calculateVolumeConsistency days =
     (if length days < 2 then 0
      else (let volumes = filter (\<lambda>v. v > 0) (map (\<lambda>d. js_or (dp_volume24h d) 0) days)
            in if length volumes = 0 then 0
               else (let mean = foldl (\<lambda>a b. a + b) 0 volumes / real (length volumes);
                         variance = foldl (\<lambda>a b. a + (b - mean)\<^sup>2) 0 volumes / real (length volumes);
                         stdDev = sqrt variance
                     in if mean > 0 then max 0 (1 - (stdDev / mean)) else 0)))"

definition calculatePriceVolatility :: "dailyPoint list \<Rightarrow> real" where
  "calculatePriceVolatility days =
     (if length days < 2 then 0
      else (let prices = filter (\<lambda>p. p > 0) (map (\<lambda>d. js_or (dp_price d) 0) days)
            in if length prices < 2 then 0
               else (let returns = returns_loop prices
                     in if length returns = 0 then 0
                        else (let mean = foldl (\<lambda>a b. a + b) 0 returns / real (length returns);
                                  variance = foldl (\<lambda>a b. a + (b - mean)\<^sup>2) 0 returns / real (length returns)
                              in sqrt variance * 100))))"

text \<open>The object literal stored for a key seen for the first time.\<close>

definition new_entry :: "string \<Rightarrow> token \<Rightarrow> weeklyToken" where
  "new_entry d t =
     \<lparr> base = t, dailyData = [], firstSeen = d, lastSeen = d, daysActive = 0,
       avgVolume = 0, avgMarketCap = 0,
       maxMarketCap = js_or (marketCap t) 0,
       minMarketCap = js_or (marketCap t) 0,
       totalVolumeWeek = 0, weeklyGrowth = 0,
       volumeConsistency = None, priceVolatility = None \<rparr>"

text \<open>The updates made to \<^verbatim>\<open>existing\<close> for one appearance of the asset.\<close>

definition observe :: "string \<Rightarrow> token \<Rightarrow> weeklyToken \<Rightarrow> weeklyToken" where
  "observe d t existing =
     (let e1 = existing\<lparr>dailyData := dailyData existing @
                  [\<lparr> dp_date = d, dp_price = price t, dp_volume24h = volume24h t,
                     dp_marketCap = marketCap t, dp_priceChange24h = priceChange24h t \<rparr>]\<rparr>;
          e2 = e1\<lparr>lastSeen := d\<rparr>;
          e3 = e2\<lparr>daysActive := daysActive e2 + 1\<rparr>;
          e4 = e3\<lparr>maxMarketCap := max (maxMarketCap e3) (js_or (marketCap t) 0)\<rparr>;
          e5 = e4\<lparr>minMarketCap := math_min (minMarketCap e4) (or_Infinity (marketCap t))\<rparr>;
          e6 = e5\<lparr>totalVolumeWeek := totalVolumeWeek e5 + js_or (volume24h t) 0\<rparr>
      in if length (dailyData e6) > 1
         then (let firstPrice = dp_price (dailyData e6 ! 0);
                   currentPrice = price t
               in e6\<lparr>weeklyGrowth :=
                        (if firstPrice > 0 then ((currentPrice - firstPrice) / firstPrice) * 100 else 0)\<rparr>)
         else e6)"

text \<open>
  The \<^verbatim>\<open>Map\<close> is an association list in insertion order: \<^verbatim>\<open>has\<close> and \<^verbatim>\<open>get\<close> are
  \<^const>\<open>map_of\<close>, \<^verbatim>\<open>set\<close> of a new key appends, and mutating the object that \<^verbatim>\<open>get\<close>
  returned replaces the entry in place.
\<close>

definition add_token :: "string \<Rightarrow> token \<Rightarrow> (string \<times> weeklyToken) list \<Rightarrow> (string \<times> weeklyToken) list" where
  "add_token d t tokenMap =
     (let key = token_key t;
          tokenMap1 = (if map_of tokenMap key = None
                       then AList.update key (new_entry d t) tokenMap
                       else tokenMap)
      in case map_of tokenMap1 key of
           None \<Rightarrow> tokenMap1
         | Some existing \<Rightarrow> AList.update key (observe d t existing) tokenMap1)"

definition add_day :: "dayData option \<Rightarrow> (string \<times> weeklyToken) list \<Rightarrow> (string \<times> weeklyToken) list" where
  "add_day dayData tokenMap =
     (case dayData of
        None \<Rightarrow> tokenMap
      | Some day \<Rightarrow> (case tokens day of
                      None \<Rightarrow> tokenMap
                    | Some ts \<Rightarrow> fold (add_token (date day)) ts tokenMap))"

definition finish_token :: "weeklyToken \<Rightarrow> weeklyToken" where
  "finish_token t =
     t\<lparr> avgVolume := totalVolumeWeek t / real (daysActive t),
        avgMarketCap := foldl (\<lambda>sum day. sum + js_or (dp_marketCap day) 0) 0 (dailyData t)
                          / real (length (dailyData t)),
        volumeConsistency := Some (weekly_calculateVolumeConsistency (dailyData t)),
        priceVolatility := Some (calculatePriceVolatility (dailyData t)) \<rparr>"

definition aggregateWeeklyTokenData :: "dayData option list \<Rightarrow> weeklyToken list" where
  "aggregateWeeklyTokenData weeklyData = map (finish_token \<circ> snd) (fold add_day weeklyData [])"

text \<open>
  The summary objects of \<^verbatim>\<open>getTopWeeklyPerformers\<close> (the fields of the token model).
  The filter's first test, \<^verbatim>\<open>token.weeklyGrowth !== undefined\<close>, holds for every
  aggregated asset, whose \<^verbatim>\<open>weeklyGrowth\<close> starts at 0.
\<close>

record weeklyPerformer =
  wp_symbol :: string
  wp_weeklyGrowth :: real
  wp_avgVolume :: real
  wp_maxMarketCap :: real
  wp_daysActive :: nat
  wp_volumeConsistency :: "real option"
  wp_priceVolatility :: "real option"

definition getTopWeeklyPerformers :: "weeklyToken list \<Rightarrow> nat \<Rightarrow> weeklyPerformer list" where
  "getTopWeeklyPerformers ts limit =
     map (\<lambda>t. \<lparr> wp_symbol = symbol (base t), wp_weeklyGrowth = weeklyGrowth t,
                 wp_avgVolume = avgVolume t, wp_maxMarketCap = maxMarketCap t,
                 wp_daysActive = daysActive t, wp_volumeConsistency = volumeConsistency t,
                 wp_priceVolatility = priceVolatility t \<rparr>)
       (take limit (sort_desc weeklyGrowth (filter (\<lambda>t. daysActive t \<ge> 3) ts)))"

subsection \<open>Cohort survival\<close>

record survival =
  startingTokens :: nat
  endingTokens :: nat
  survived :: nat
  dropped :: int
  newEntrants :: nat
  survivalRate :: real

text \<open>\<^verbatim>\<open>day?.tokens\<close>: absent for a missing day or a day without the array.\<close>

definition day_tokens :: "dayData option \<Rightarrow> token list option" where
  "day_tokens day = (case day of None \<Rightarrow> None | Some d \<Rightarrow> tokens d)"

definition analyzeSurvivalRates :: "dayData option list \<Rightarrow> survival option" where
  "analyzeSurvivalRates weeklyData =
     (if length weeklyData < 2 then None
      else (let firstDay = weeklyData ! 0;
                lastDay = weeklyData ! (length weeklyData - 1)
            in case day_tokens firstDay of
                 None \<Rightarrow> None
               | Some firstTokens \<Rightarrow>
                  (case day_tokens lastDay of
                     None \<Rightarrow> None
                   | Some lastTokens \<Rightarrow>
                      (let firstDayTokens = new_Set (map token_key firstTokens);
                           lastDayTokens = new_Set (map token_key lastTokens);
                           survivedKeys = filter (\<lambda>k. Set_has lastDayTokens k) firstDayTokens;
                           newKeys = filter (\<lambda>k. \<not> Set_has firstDayTokens k) lastDayTokens
                       in Some \<lparr> startingTokens = length firstDayTokens,
                                  endingTokens = length lastDayTokens,
                                  survived = length survivedKeys,
                                  dropped = int (length firstDayTokens) - int (length survivedKeys),
                                  newEntrants = length newKeys,
                                  survivalRate =
                                    (if length firstDayTokens > 0
                                     then (real (length survivedKeys) / real (length firstDayTokens)) * 100
                                     else 0) \<rparr>))))"

subsection \<open>Linear trend\<close>

text \<open>
  \<^verbatim>\<open>calculateTrend(values)\<close>. The \<^verbatim>\<open>for\<close> loop runs the index \<open>i\<close> over the array and
  accumulates the four sums \<open>(sumX, sumY, sumXY, sumXX)\<close>.
\<close>

fun trend_loop :: "real list \<Rightarrow> nat \<Rightarrow> real \<times> real \<times> real \<times> real \<Rightarrow> real \<times> real \<times> real \<times> real" where
  "trend_loop [] i acc = acc"
| "trend_loop (v # vs) i (sumX, sumY, sumXY, sumXX) =
     trend_loop vs (Suc i) (sumX + real i, sumY + v, sumXY + real i * v, sumXX + real i * real i)"

definition calculateTrend :: "real list \<Rightarrow> real" where
  "calculateTrend values =
     (if length values < 2 then 0
      else (case trend_loop values 0 (0, 0, 0, 0) of
              (sumX, sumY, sumXY, sumXX) \<Rightarrow>
                (let n = real (length values)
                 in (n * sumXY - sumX * sumY) / (n * sumXX - sumX * sumX))))"

section \<open>Database: top performers over a window\<close>

text \<open>The accumulator of \<^verbatim>\<open>getTopPerformers\<close> and the objects it returns.\<close>

record perf =
  perf_token :: token
  firstPrice :: real
  lastPrice :: real
  totalVolume :: real
  perf_daysActive :: nat
  perf_maxMarketCap :: real

record performer =
  pf_token :: token
  periodGrowth :: real
  avgDailyVolume :: real
  pf_daysActive :: nat
  pf_maxMarketCap :: real

definition perf_step :: "token \<Rightarrow> (string \<times> perf) list \<Rightarrow> (string \<times> perf) list" where
  "perf_step t tokenPerformance =
     (let key = token_key t;
          tp1 = (if map_of tokenPerformance key = None
                 then AList.update key
                        \<lparr> perf_token = t, firstPrice = price t, lastPrice = price t,
                          totalVolume = 0, perf_daysActive = 0,
                          perf_maxMarketCap = js_or (marketCap t) 0 \<rparr> tokenPerformance
                 else tokenPerformance)
      in case map_of tp1 key of
           None \<Rightarrow> tp1
         | Some p \<Rightarrow>
             AList.update key
               (p\<lparr> lastPrice := price t,
                   totalVolume := totalVolume p + js_or (volume24h t) 0,
                   perf_daysActive := perf_daysActive p + 1,
                   perf_maxMarketCap := max (perf_maxMarketCap p) (js_or (marketCap t) 0),
                   perf_token := t \<rparr>) tp1)"

definition to_performer :: "perf \<Rightarrow> performer" where
  "to_performer p =
     \<lparr> pf_token = perf_token p,
       periodGrowth = (if firstPrice p > 0
                       then ((lastPrice p - firstPrice p) / firstPrice p) * 100 else 0),
       avgDailyVolume = totalVolume p / real (perf_daysActive p),
       pf_daysActive = perf_daysActive p,
       pf_maxMarketCap = perf_maxMarketCap p \<rparr>"

text \<open>
  \<^verbatim>\<open>getTopPerformers(days, limit)\<close>, with the snapshots that \<^verbatim>\<open>loadHistoricalData\<close>
  read for the window as a parameter. The loader skips missing days, so every element
  is a day object. \<open>collect_performance\<close> is the pair of nested \<^verbatim>\<open>for\<close> loops,
  with \<^verbatim>\<open>dayData.tokens || []\<close> for a day without the array.
\<close>

definition collect_performance :: "dayData list \<Rightarrow> (string \<times> perf) list" where
  "collect_performance historicalData =
     fold (\<lambda>day tp. fold perf_step (case tokens day of None \<Rightarrow> [] | Some ts \<Rightarrow> ts) tp)
          historicalData []"

definition getTopPerformers :: "dayData list \<Rightarrow> nat \<Rightarrow> nat \<Rightarrow> performer list" where
  "getTopPerformers historicalData days limit =
     (if length historicalData = 0 then []
      else take limit
             (sort_desc periodGrowth
                (map to_performer
                   (filter (\<lambda>p. real (perf_daysActive p) \<ge> min (real days * 0.5) 3)
                           (map snd (collect_performance historicalData))))))"

section \<open>Helpers\<close>

text \<open>\<^verbatim>\<open>calculatePercentageChange(current, previous)\<close> of \<^verbatim>\<open>helpers.js\<close>.\<close>

definition calculatePercentageChange :: "real \<Rightarrow> real \<Rightarrow> real" where
  "calculatePercentageChange cur previous =
     (if falsy previous \<or> previous = 0 then 0
      else ((cur - previous) / previous) * 100)"

section \<open>The specification's wording of weekly growth\<close>

text \<open>
  Weekly growth as the specification words it: the percent change from the earliest data
  point with a valid (positive) price to the most recent one with a valid price, once the
  series has two data points.
\<close>

definition spec_weeklyGrowth :: "real list \<Rightarrow> real" where
  "spec_weeklyGrowth prices =
     (if length prices < 2 then 0
      else (case filter (\<lambda>p. p > 0) prices of
              [] \<Rightarrow> 0
            | v # vs \<Rightarrow> calculatePercentageChange (last (v # vs)) v))"

section \<open>The specification's wording of the sustainability label\<close>

text \<open>
  The label as the specification words it, over the series the code reads (the last seven
  historical points and the current one): the volume and liquidity sub-scores are the
  specified consistency, which lies between 0 and 1, and the third is
  \<open>1 - volatility/100\<close> clamped at 0.
\<close>

definition spec_sustainability :: "token \<Rightarrow> token list \<Rightarrow> level" where
  "spec_sustainability cur historical =
     (if length historical < 3 then UnknownLevel
      else (let v = spec_consistency (map volume24h (slice_last7 historical) @ [volume24h cur]);
                l = spec_consistency (map liquidity (slice_last7 historical) @ [liquidity cur]);
                p = max 0 (1 - calculateVolatility (map price (slice_last7 historical) @ [price cur]) / 100);
                avg = (v + l + p) / 3
            in if avg > 0.7 then High
               else if avg < 0.3 then LowLevel
               else ModerateLevel))"

section \<open>The aggregation seen as a run over one asset's appearances\<close>

text \<open>
  The appearances of assets in a range: every token of every day that has a token array,
  in iteration order, paired with the day's date. \<open>obs_of k\<close> keeps the appearances of
  the identity \<open>k\<close>; \<open>entry_of\<close> is the accumulator built from a first appearance and
  the later ones.
\<close>

definition point :: "string \<Rightarrow> token \<Rightarrow> dailyPoint" where
  "point d t = \<lparr> dp_date = d, dp_price = price t, dp_volume24h = volume24h t,
                  dp_marketCap = marketCap t, dp_priceChange24h = priceChange24h t \<rparr>"

definition day_obs :: "dayData option \<Rightarrow> (string \<times> token) list" where
  "day_obs dd = (case dd of None \<Rightarrow> []
                 | Some day \<Rightarrow> (case tokens day of None \<Rightarrow> [] | Some ts \<Rightarrow> map (Pair (date day)) ts))"

definition all_obs :: "dayData option list \<Rightarrow> (string \<times> token) list" where
  "all_obs weeklyData = concat (map day_obs weeklyData)"

definition obs_of :: "string \<Rightarrow> dayData option list \<Rightarrow> (string \<times> token) list" where
  "obs_of k weeklyData = filter (\<lambda>ob. token_key (snd ob) = k) (all_obs weeklyData)"

definition add_obs :: "string \<times> token \<Rightarrow> (string \<times> weeklyToken) list \<Rightarrow> (string \<times> weeklyToken) list" where
  "add_obs ob m = add_token (fst ob) (snd ob) m"

definition obs_step :: "weeklyToken \<Rightarrow> string \<times> token \<Rightarrow> weeklyToken" where
  "obs_step e ob = observe (fst ob) (snd ob) e"

fun run_obs :: "weeklyToken option \<Rightarrow> (string \<times> token) list \<Rightarrow> weeklyToken option" where
  "run_obs acc [] = acc"
| "run_obs acc (ob # os) =
     run_obs (Some (obs_step (case acc of None \<Rightarrow> new_entry (fst ob) (snd ob) | Some e \<Rightarrow> e) ob)) os"

definition entry_of :: "string \<times> token \<Rightarrow> (string \<times> token) list \<Rightarrow> weeklyToken" where
  "entry_of ob os = foldl obs_step (obs_step (new_entry (fst ob) (snd ob)) ob) os"

section \<open>The window scan seen as a run over one asset's appearances\<close>

text \<open>
  The tokens that \<^verbatim>\<open>getTopPerformers\<close> iterates over, in order; \<open>appearances k\<close> keeps
  those of the identity \<open>k\<close>. \<open>perf_new\<close> is the object stored for a new key and
  \<open>perf_seen\<close> the updates for one appearance; \<open>perf_of\<close> is the accumulator built from
  a first appearance and the later ones.
\<close>

definition window_tokens :: "dayData list \<Rightarrow> token list" where
  "window_tokens historicalData =
     concat (map (\<lambda>day. case tokens day of None \<Rightarrow> [] | Some ts \<Rightarrow> ts) historicalData)"

definition appearances :: "string \<Rightarrow> dayData list \<Rightarrow> token list" where
  "appearances k historicalData = filter (\<lambda>t. token_key t = k) (window_tokens historicalData)"

definition perf_new :: "token \<Rightarrow> perf" where
  "perf_new t =
     \<lparr> perf_token = t, firstPrice = price t, lastPrice = price t, totalVolume = 0,
       perf_daysActive = 0, perf_maxMarketCap = js_or (marketCap t) 0 \<rparr>"

definition perf_seen :: "perf \<Rightarrow> token \<Rightarrow> perf" where
  "perf_seen p t =
     p\<lparr> lastPrice := price t,
        totalVolume := totalVolume p + js_or (volume24h t) 0,
        perf_daysActive := perf_daysActive p + 1,
        perf_maxMarketCap := max (perf_maxMarketCap p) (js_or (marketCap t) 0),
        perf_token := t \<rparr>"

fun run_perf :: "perf option \<Rightarrow> token list \<Rightarrow> perf option" where
  "run_perf acc [] = acc"
| "run_perf acc (t # ts) =
     run_perf (Some (perf_seen (case acc of None \<Rightarrow> perf_new t | Some p \<Rightarrow> p) t)) ts"

definition perf_of :: "token \<Rightarrow> token list \<Rightarrow> perf" where
  "perf_of t ts = foldl perf_seen (perf_seen (perf_new t) t) ts"

section \<open>Sample data for the worked examples\<close>

definition sample_token :: "string \<Rightarrow> real \<Rightarrow> real \<Rightarrow> real \<Rightarrow> token" where
  "sample_token s p v m =
     \<lparr> address = Some s, symbol = s, price = p, volume24h = v, marketCap = m, liquidity = 0,
       priceChange24h = 0, transactions24h = 0, buys24h = 0, sells24h = 0 \<rparr>"

text \<open>X is listed on three days, with no price on the first and no market cap on the second; Y on one.\<close>

definition gappy_week :: "dayData option list" where
  "gappy_week =
     [Some \<lparr> date = ''D1'', tokens = Some [sample_token ''X'' 0 10 5, sample_token ''Y'' 1 10 3] \<rparr>,
      Some \<lparr> date = ''D2'', tokens = Some [sample_token ''X'' 1 10 0] \<rparr>,
      Some \<lparr> date = ''D3'', tokens = Some [sample_token ''X'' 2 10 7] \<rparr>]"

text \<open>X is listed on three days with full data; Y on one.\<close>

definition steady_days :: "dayData list" where
  "steady_days =
     [\<lparr> date = ''D1'', tokens = Some [sample_token ''X'' 1 10 5, sample_token ''Y'' 1 10 3] \<rparr>,
      \<lparr> date = ''D2'', tokens = Some [sample_token ''X'' (3 / 2) 10 6] \<rparr>,
      \<lparr> date = ''D3'', tokens = Some [sample_token ''X'' 2 10 7] \<rparr>]"

definition steady_week :: "dayData option list" where
  "steady_week = map Some steady_days"

text \<open>A two-day window holding one snapshot of one asset.\<close>

definition short_window :: "dayData list" where
  "short_window = [\<lparr> date = ''D1'', tokens = Some [sample_token ''X'' 1 10 5] \<rparr>]"

text \<open>Two snapshots, each holding the one asset X.\<close>

definition two_day_window :: "dayData list" where
  "two_day_window =
     [\<lparr> date = ''D1'', tokens = Some [sample_token ''X'' 1 10 5] \<rparr>,
      \<lparr> date = ''D2'', tokens = Some [sample_token ''X'' 2 10 5] \<rparr>]"

text \<open>
  An asset whose volume and liquidity were 0 on four earlier days and are 5 now, at a
  constant price.
\<close>

definition quiet_history :: "token list" where
  "quiet_history =
     [sample_token ''X'' 1 0 1, sample_token ''X'' 1 0 1,
      sample_token ''X'' 1 0 1, sample_token ''X'' 1 0 1]"

definition active_now :: token where
  "active_now = (sample_token ''X'' 1 5 1)\<lparr>liquidity := 5\<rparr>"

text \<open>The cohort scenario: A, B, C on the first day and B, C, D on the last.\<close>

definition cohort_week :: "dayData option list" where
  "cohort_week =
     [Some \<lparr> date = ''D1'', tokens = Some [sample_token ''A'' 1 1 1, sample_token ''B'' 1 1 1,
                                             sample_token ''C'' 1 1 1] \<rparr>,
      Some \<lparr> date = ''D7'', tokens = Some [sample_token ''B'' 1 1 1, sample_token ''C'' 1 1 1,
                                             sample_token ''D'' 1 1 1] \<rparr>]"

text \<open>An asset with ten sells and no buy in the last day, and nothing else to score.\<close>

definition sells_only :: token where
  "sells_only =
     \<lparr> address = Some ''X'', symbol = ''X'', price = 1, volume24h = 0, marketCap = 0,
       liquidity = 0, priceChange24h = 0, transactions24h = 10, buys24h = 0, sells24h = 10 \<rparr>"

definition sample_analysis :: "string \<Rightarrow> real \<Rightarrow> analysis" where
  "sample_analysis s sc =
     \<lparr> current = sample_token s 1 0 0,
       performance = calculatePerformanceMetrics (sample_token s 1 0 0),
       sustainabilityOf = calculateSustainability (sample_token s 1 0 0) [],
       score = sc, rank = 0 \<rparr>"

section \<open>Properties of the linear trend\<close>

lemma trend_loop_sums:
  "trend_loop vs i (sx, sy, sxy, sxx) =
     (sx + (\<Sum>j<length vs. real (i + j)),
      sy + (\<Sum>j<length vs. vs ! j),
      sxy + (\<Sum>j<length vs. real (i + j) * vs ! j),
      sxx + (\<Sum>j<length vs. real (i + j) * real (i + j)))"
proof (induction vs arbitrary: i sx sy sxy sxx)
  case Nil
  show ?case by simp
next
  case (Cons v vs)
  show ?case
    by (simp add: Cons.IH sum.lessThan_Suc_shift ac_simps del: sum.lessThan_Suc)
qed

lemma sum_indices: "(\<Sum>j<n. real j) = real n * (real n - 1) / 2"
  by (induction n) (simp_all add: field_simps)

lemma sum_index_squares: "(\<Sum>j<n. real j * real j) = real n * (real n - 1) * (2 * real n - 1) / 6"
  by (induction n) (simp_all add: field_simps)

lemma trend_denominator:
  "real n * (\<Sum>j<n. real j * real j) - (\<Sum>j<n. real j) * (\<Sum>j<n. real j)
     = (real n)\<^sup>2 * ((real n)\<^sup>2 - 1) / 12"
  unfolding sum_indices sum_index_squares
  by (simp add: field_simps power2_eq_square)

lemma trend_denominator_pos:
  assumes "2 \<le> n"
  shows "0 < real n * (\<Sum>j<n. real j * real j) - (\<Sum>j<n. real j) * (\<Sum>j<n. real j)"
proof -
  from assms have "1 < real n" by simp
  then have "1 < (real n)\<^sup>2" by (simp add: power2_eq_square less_1_mult)
  moreover have "0 < (real n)\<^sup>2" using assms by simp
  ultimately show ?thesis unfolding trend_denominator by simp
qed

text \<open>
  C9. For at least two values \<^verbatim>\<open>calculateTrend\<close> is the closed-form least-squares slope
  \<open>(n\<Sum>xy - \<Sum>x\<Sum>y) / (n\<Sum>x\<^sup>2 - (\<Sum>x)\<^sup>2)\<close> of the values against the indices
  \<open>0..n-1\<close>, whose denominator is positive; for fewer than two values it is 0; and it is
  1 on [1,2,3,4], -1 on [4,3,2,1] and 0 on [5].
\<close>

theorem calculateTrend_closed_form:
  "(2 \<le> length values \<longrightarrow>
      calculateTrend values =
        (real (length values) * (\<Sum>i<length values. real i * values ! i)
           - (\<Sum>i<length values. real i) * (\<Sum>i<length values. values ! i))
        / (real (length values) * (\<Sum>i<length values. real i * real i)
           - (\<Sum>i<length values. real i) * (\<Sum>i<length values. real i))
      \<and> 0 < real (length values) * (\<Sum>i<length values. real i * real i)
           - (\<Sum>i<length values. real i) * (\<Sum>i<length values. real i))
   \<and> (length values < 2 \<longrightarrow> calculateTrend values = 0)
   \<and> calculateTrend [1, 2, 3, 4] = 1
   \<and> calculateTrend [4, 3, 2, 1] = -1
   \<and> calculateTrend [5] = 0"
proof -
  have ex1: "calculateTrend [1, 2, 3, 4] = 1"
    by (simp add: calculateTrend_def)
  have ex2: "calculateTrend [4, 3, 2, 1] = -1"
    by (simp add: calculateTrend_def)
  have ex3: "calculateTrend [5] = 0"
    by (simp add: calculateTrend_def)
  have short: "length values < 2 \<longrightarrow> calculateTrend values = 0"
    by (simp add: calculateTrend_def)
  have long: "2 \<le> length values \<longrightarrow>
      calculateTrend values =
        (real (length values) * (\<Sum>i<length values. real i * values ! i)
           - (\<Sum>i<length values. real i) * (\<Sum>i<length values. values ! i))
        / (real (length values) * (\<Sum>i<length values. real i * real i)
           - (\<Sum>i<length values. real i) * (\<Sum>i<length values. real i))"
    by (simp add: calculateTrend_def trend_loop_sums Let_def)
  from ex1 ex2 ex3 short long trend_denominator_pos [of "length values"]
  show ?thesis by blast
qed

theorem calculateTrend_closed_form_witness:
  "2 \<le> length [2, 4, 9 :: real] \<and> calculateTrend [2, 4, 9] = 7 / 2"
proof -
  have "calculateTrend [2, 4, 9] =
        (real (length [2, 4, 9 :: real]) * (\<Sum>i<length [2, 4, 9 :: real]. real i * [2, 4, 9] ! i)
           - (\<Sum>i<length [2, 4, 9 :: real]. real i) * (\<Sum>i<length [2, 4, 9 :: real]. [2, 4, 9] ! i))
        / (real (length [2, 4, 9 :: real]) * (\<Sum>i<length [2, 4, 9 :: real]. real i * real i)
           - (\<Sum>i<length [2, 4, 9 :: real]. real i) * (\<Sum>i<length [2, 4, 9 :: real]. real i))"
    using calculateTrend_closed_form [of "[2, 4, 9]"] by simp
  then show ?thesis
    by (simp add: lessThan_Suc numeral_3_eq_3)
qed


section \<open>Properties of the performance score\<close>

lemma calculatePerformanceScore_sum:
  "calculatePerformanceScore a =
     max 0 (min 100 (50 + min (max (js_or (change24h (performance a)) 0 * 0.5) (- 25)) 25
       + min (js_or (volumeToMcapRatio (performance a)) 0 * 0.3) 15
       + (case liquidityHealthOf (performance a) of
            Healthy \<Rightarrow> 10 | Moderate \<Rightarrow> 5 | Poor \<Rightarrow> - 10 | _ \<Rightarrow> 0)
       + (if js_or (buyToSellRatio (performance a)) 1 > 1.2 then 5
          else if js_or (buyToSellRatio (performance a)) 1 < 0.8 then - 5 else 0)))"
proof -
  define A where "A = min (max (js_or (change24h (performance a)) 0 * 0.5) (- 25)) 25"
  define B where "B = min (js_or (volumeToMcapRatio (performance a)) 0 * 0.3) 15"
  define r where "r = js_or (buyToSellRatio (performance a)) 1"
  define h where "h = liquidityHealthOf (performance a)"
  have "calculatePerformanceScore a =
     max 0 (min 100 (if r > 1.2
        then (if h = Healthy then 50 + A + B + 10 else if h = Moderate then 50 + A + B + 5
              else if h = Poor then 50 + A + B - 10 else 50 + A + B) + 5
        else if r < 0.8
        then (if h = Healthy then 50 + A + B + 10 else if h = Moderate then 50 + A + B + 5
              else if h = Poor then 50 + A + B - 10 else 50 + A + B) - 5
        else (if h = Healthy then 50 + A + B + 10 else if h = Moderate then 50 + A + B + 5
              else if h = Poor then 50 + A + B - 10 else 50 + A + B)))"
    by (simp only: calculatePerformanceScore_def Let_def A_def B_def r_def h_def)
  also have "\<dots> = max 0 (min 100 (50 + A + B
       + (case h of Healthy \<Rightarrow> 10 | Moderate \<Rightarrow> 5 | Poor \<Rightarrow> - 10 | _ \<Rightarrow> 0)
       + (if r > 1.2 then 5 else if r < 0.8 then - 5 else 0)))"
    by (cases h) simp_all
  finally show ?thesis
    by (simp only: A_def B_def r_def h_def)
qed

text \<open>The final clamp keeps every score in the range 0 to 100.\<close>

lemma calculatePerformanceScore_range:
  "0 \<le> calculatePerformanceScore a \<and> calculatePerformanceScore a \<le> 100"
  unfolding calculatePerformanceScore_sum
  by (intro conjI max.cobounded1 max.boundedI min.cobounded1) simp

text \<open>Whenever the buy/sell ratio is not 0, the code computes the score the specification words.\<close>

lemma calculatePerformanceScore_spec_score:
  assumes "buyToSellRatio (performance a) \<noteq> 0"
  shows "calculatePerformanceScore a =
     spec_score (change24h (performance a)) (volumeToMcapRatio (performance a))
       (liquidityHealthOf (performance a)) (buyToSellRatio (performance a))"
proof -
  have 1: "js_or (buyToSellRatio (performance a)) 1 = buyToSellRatio (performance a)"
    using assms by (simp add: js_or_def)
  have 2: "js_or x 0 = x" for x by (simp add: js_or_def)
  have 3: "min (max (x * 0.5) (- 25)) 25 = max (- 25) (min 25 (0.5 * x))" for x :: real
    by (simp add: min_def max_def)
  show ?thesis
    unfolding calculatePerformanceScore_sum spec_score_def 1 2 3 by (simp only: mult.commute)
qed

lemma sells_only_metrics:
  "calculatePerformanceMetrics sells_only
     = \<lparr> change24h = 0, volumeToMcapRatio = 0, liquidityHealthOf = Unknown, buyToSellRatio = 0 \<rparr>"
  by (simp add: calculatePerformanceMetrics_def calculateBuyToSellRatio_def falsy_def
      js_or_def assessLiquidityHealth_def sells_only_def)

lemma one_buy_metrics:
  "calculatePerformanceMetrics (sells_only\<lparr>buys24h := 1\<rparr>)
     = \<lparr> change24h = 0, volumeToMcapRatio = 0, liquidityHealthOf = Unknown, buyToSellRatio = 1 / 10 \<rparr>"
  by (simp add: calculatePerformanceMetrics_def calculateBuyToSellRatio_def falsy_def
      js_or_def assessLiquidityHealth_def sells_only_def)

text \<open>
  C1. The score stays in the range 0 to 100, but the nudge for the buy/sell ratio is not the
  one stated: an asset with ten sells and no buy has the ratio 0, which is below 0.8, and
  the stated score is 45; the code reads the ratio through \<^verbatim>\<open>|| 1\<close>, takes 0 for a
  missing value, and returns 50. With one buy against the ten sells the penalty applies
  and the score is 45.
\<close>

theorem score_skips_zero_buy_ratio:
  "buyToSellRatio (calculatePerformanceMetrics sells_only) = 0
   \<and> score (analyzeTokenPerformance sells_only []) = 50
   \<and> score (analyzeTokenPerformance (sells_only\<lparr>buys24h := 1\<rparr>) []) = 45
   \<and> spec_score (change24h (calculatePerformanceMetrics sells_only))
        (volumeToMcapRatio (calculatePerformanceMetrics sells_only))
        (liquidityHealthOf (calculatePerformanceMetrics sells_only))
        (buyToSellRatio (calculatePerformanceMetrics sells_only)) = 45"
  by (simp add: sells_only_metrics one_buy_metrics analyzeTokenPerformance_def
      calculatePerformanceScore_sum js_or_def spec_score_def Let_def)

section \<open>Properties of the consistency score\<close>

lemma js_or_0: "js_or x 0 = x"
  by (simp add: js_or_def)

lemma foldl_plus_sum_list: "foldl (\<lambda>a b. a + b) a xs = a + sum_list xs" for a :: real
  by (induction xs arbitrary: a) simp_all

lemma foldl_squares_nonneg: "0 \<le> (a::real) \<Longrightarrow> 0 \<le> foldl (\<lambda>a b. a + (b - m)\<^sup>2) a xs"
proof (induction xs arbitrary: a)
  case Nil
  then show ?case by simp
next
  case (Cons x xs)
  have "0 \<le> a + (x - m)\<^sup>2"
    using Cons.prems by simp
  then show ?case by (simp add: Cons.IH)
qed

text \<open>The analyzer's consistency score never exceeds 1, and is 1 on [5,5,5].\<close>

lemma calculateConsistency_le_1: "calculateConsistency values \<le> 1"
proof -
  define mean where "mean = foldl (\<lambda>a b. a + b) 0 values / real (length values)"
  define sd where "sd = sqrt (foldl (\<lambda>a b. a + (b - mean)\<^sup>2) 0 values / real (length values))"
  have sd: "0 \<le> sd"
    unfolding sd_def by (simp add: foldl_squares_nonneg)
  have eq: "calculateConsistency values =
      (if length values < 2 then 0 else if mean > 0 then 1 - (sd / mean) else 0)"
    by (simp only: calculateConsistency_def Let_def mean_def sd_def)
  have "0 \<le> sd / mean" if "mean > 0"
    using sd that by simp
  then show ?thesis
    unfolding eq by simp
qed

lemma calculateConsistency_constant: "calculateConsistency [5, 5, 5] = 1"
  by (simp add: calculateConsistency_def Let_def)

lemma foldl_squares_sum_list:
  "foldl (\<lambda>a b. a + (b - m)\<^sup>2) a xs = a + sum_list (map (\<lambda>v. (v - m)\<^sup>2) xs)" for a :: real
  by (induction xs arbitrary: a) simp_all

text \<open>The analyzer's score is the specified one wherever it is not negative: only the clamp is missing.\<close>

lemma calculateConsistency_spec_consistency:
  "spec_consistency values = max 0 (calculateConsistency values)"
proof -
  define mean where "mean = sum_list values / real (length values)"
  define sd where "sd = sqrt (sum_list (map (\<lambda>v. (v - mean)\<^sup>2) values) / real (length values))"
  have c: "calculateConsistency values =
      (if length values < 2 then 0 else if mean > 0 then 1 - (sd / mean) else 0)"
    by (simp only: calculateConsistency_def Let_def foldl_plus_sum_list foldl_squares_sum_list
        mean_def sd_def add_0)
  have s: "spec_consistency values =
      (if length values < 2 then 0 else if mean > 0 then max 0 (1 - sd / mean) else 0)"
    by (simp only: spec_consistency_def Let_def mean_def sd_def)
  show ?thesis unfolding c s by simp
qed

text \<open>
  C2. The analyzer's \<^verbatim>\<open>calculateConsistency\<close> does not clamp at 0: on the non-negative
  sequence [0,0,0,0,5] (mean 1, standard deviation 2) it returns -1, outside the range
  0 to 1, where the stated value \<open>max(0, 1 - stdDev/mean)\<close> is 0. The weekly report's
  \<^verbatim>\<open>calculateVolumeConsistency\<close> has the clamp.
\<close>

theorem calculateConsistency_below_zero:
  "calculateConsistency [0, 0, 0, 0, 5] = - 1
   \<and> spec_consistency [0, 0, 0, 0, 5] = 0
   \<and> calculateVolumeConsistency (sample_token ''X'' 1 5 1)
        [sample_token ''X'' 1 0 1, sample_token ''X'' 1 0 1,
         sample_token ''X'' 1 0 1, sample_token ''X'' 1 0 1] = - 1"
  by (simp add: calculateConsistency_def spec_consistency_def calculateVolumeConsistency_def
      slice_last7_def sample_token_def js_or_def Let_def power2_eq_square)

section \<open>Properties of the ranking\<close>

lemma assign_ranks_rank: "map rank (assign_ranks i xs) = map Suc [i..<i + length xs]"
proof (induction xs arbitrary: i)
  case Nil
  show ?case by simp
next
  case (Cons a xs)
  have "[i..<i + length (a # xs)] = i # [Suc i..<Suc i + length xs]"
    by (simp add: upt_conv_Cons del: upt_Suc)
  then show ?case by (simp add: Cons.IH del: upt_Suc)
qed

lemma assign_ranks_forget: "map (\<lambda>a. a\<lparr>rank := r\<rparr>) (assign_ranks i xs) = map (\<lambda>a. a\<lparr>rank := r\<rparr>) xs"
  by (induction xs arbitrary: i) simp_all

lemma assign_ranks_score: "map score (assign_ranks i xs) = map score xs"
  by (induction xs arbitrary: i) simp_all

lemma length_assign_ranks: "length (assign_ranks i xs) = length xs"
  by (induction xs arbitrary: i) simp_all

lemma sort_desc_sorted: "sorted_wrt (\<lambda>x y. key x \<ge> key y) (sort_desc key xs)"
proof -
  have "sorted (map (\<lambda>a. - key a) (sort_key (\<lambda>a. - key a) xs))"
    by (rule sorted_sort_key)
  then show ?thesis
    by (simp add: sort_desc_def sorted_map)
qed

lemma sort_desc_stable: "filter (\<lambda>y. key y = k) (sort_desc key xs) = filter (\<lambda>y. key y = k) xs"
proof -
  have "filter (\<lambda>y. - key y = - k) (sort_key (\<lambda>a. - key a) xs) = filter (\<lambda>y. - key y = - k) xs"
    by (rule sort_key_stable)
  then show ?thesis by (simp add: sort_desc_def)
qed

lemma set_sort_desc: "set (sort_desc key xs) = set xs"
  by (simp add: sort_desc_def)

lemma length_sort_desc: "length (sort_desc key xs) = length xs"
  by (simp add: sort_desc_def)

lemma sorted_desc_hd_max:
  assumes "sorted_wrt (\<lambda>x y. key x \<ge> key y) xs" "xs \<noteq> []"
  shows "key (hd xs) = Max (key ` set xs)"
proof -
  obtain x ys where xs: "xs = x # ys" using assms(2) by (cases xs) auto
  have "\<forall>y\<in>set xs. key y \<le> key x" using assms(1) xs by auto
  then have "Max (key ` set xs) = key x"
    using xs by (intro Max_eqI) auto
  then show ?thesis using xs by simp
qed

lemma rank_sorted: "sorted_wrt (\<lambda>a b. score a \<ge> score b) (rankTokens as)"
proof -
  have "sorted_wrt (\<lambda>x y. x \<ge> y) (map score (sort_desc score as))"
    using sort_desc_sorted [of score as] by (simp add: sorted_wrt_map)
  then have "sorted_wrt (\<lambda>x y. x \<ge> y) (map score (rankTokens as))"
    by (simp add: rankTokens_def assign_ranks_score)
  then show ?thesis by (simp add: sorted_wrt_map)
qed

lemma rank_stable:
  "filter (\<lambda>a. score a = s) (map (\<lambda>a. a\<lparr>rank := 0\<rparr>) (rankTokens as))
     = filter (\<lambda>a. score a = s) (map (\<lambda>a. a\<lparr>rank := 0\<rparr>) as)"
proof -
  have "filter (\<lambda>a. score a = s) (map (\<lambda>a. a\<lparr>rank := 0\<rparr>) (rankTokens as))
      = filter (\<lambda>a. score a = s) (map (\<lambda>a. a\<lparr>rank := 0\<rparr>) (sort_desc score as))"
    by (simp add: rankTokens_def assign_ranks_forget)
  also have "\<dots> = map (\<lambda>a. a\<lparr>rank := 0\<rparr>) (filter (\<lambda>a. score a = s) (sort_desc score as))"
    by (simp add: filter_map comp_def)
  also have "\<dots> = map (\<lambda>a. a\<lparr>rank := 0\<rparr>) (filter (\<lambda>a. score a = s) as)"
    by (simp only: sort_desc_stable)
  also have "\<dots> = filter (\<lambda>a. score a = s) (map (\<lambda>a. a\<lparr>rank := 0\<rparr>) as)"
    by (simp add: filter_map comp_def)
  finally show ?thesis .
qed

text \<open>
  C3. After \<^verbatim>\<open>rankTokens\<close> the rank fields are 1, 2, ..., n in order; the batch is ordered
  by descending score; analyses of equal score keep their input order (the analyses of any
  one score, rank aside, form the same sequence before and after); and for a non-empty
  batch the first analysis has rank 1 and the maximum score.
\<close>

theorem rankTokens_ranking:
  "map rank (rankTokens as) = [1..<Suc (length as)]
   \<and> length (rankTokens as) = length as
   \<and> sorted_wrt (\<lambda>a b. score a \<ge> score b) (rankTokens as)
   \<and> (\<forall>s. filter (\<lambda>a. score a = s) (map (\<lambda>a. a\<lparr>rank := 0\<rparr>) (rankTokens as))
          = filter (\<lambda>a. score a = s) (map (\<lambda>a. a\<lparr>rank := 0\<rparr>) as))
   \<and> (as \<noteq> [] \<longrightarrow> rank (hd (rankTokens as)) = 1
          \<and> score (hd (rankTokens as)) = Max (score ` set as))"
proof -
  have ranks: "map rank (rankTokens as) = [1..<Suc (length as)]"
    by (simp add: rankTokens_def assign_ranks_rank length_sort_desc map_Suc_upt del: upt_Suc)
  have len: "length (rankTokens as) = length as"
    by (simp add: rankTokens_def length_assign_ranks length_sort_desc)
  have top: "rank (hd (rankTokens as)) = 1 \<and> score (hd (rankTokens as)) = Max (score ` set as)"
    if ne: "as \<noteq> []"
  proof -
    from ne len have ne': "rankTokens as \<noteq> []" by auto
    have "rank (hd (rankTokens as)) = hd (map rank (rankTokens as))"
      using ne' by (simp add: hd_map)
    also have "\<dots> = 1" using ne by (simp only: ranks) (simp add: hd_upt del: upt_Suc)
    finally have r: "rank (hd (rankTokens as)) = 1" .
    have "score ` set (rankTokens as) = set (map score (rankTokens as))" by simp
    also have "\<dots> = score ` set as"
      by (simp add: rankTokens_def assign_ranks_score set_sort_desc)
    finally have img: "score ` set (rankTokens as) = score ` set as" .
    have "score (hd (rankTokens as)) = Max (score ` set (rankTokens as))"
      using rank_sorted ne' by (rule sorted_desc_hd_max)
    with img r show ?thesis by simp
  qed
  from ranks len rank_sorted rank_stable top show ?thesis by blast
qed

theorem rankTokens_ranking_witness:
  "[sample_analysis ''A'' 70, sample_analysis ''B'' 90, sample_analysis ''C'' 70] \<noteq> []
   \<and> rank (hd (rankTokens [sample_analysis ''A'' 70, sample_analysis ''B'' 90, sample_analysis ''C'' 70])) = 1
   \<and> score (hd (rankTokens [sample_analysis ''A'' 70, sample_analysis ''B'' 90, sample_analysis ''C'' 70])) = 90
   \<and> map rank (rankTokens [sample_analysis ''A'' 70, sample_analysis ''B'' 90, sample_analysis ''C'' 70])
        = [1, 2, 3]"
proof -
  let ?batch = "[sample_analysis ''A'' 70, sample_analysis ''B'' 90, sample_analysis ''C'' 70]"
  have ne: "?batch \<noteq> []" by simp
  have m: "Max (score ` set ?batch) = 90"
    by (simp add: sample_analysis_def)
  have ranks: "map rank (rankTokens ?batch) = [1..<Suc (length ?batch)]"
    by (rule rankTokens_ranking [of ?batch, THEN conjunct1])
  have "?batch \<noteq> [] \<longrightarrow> rank (hd (rankTokens ?batch)) = 1
          \<and> score (hd (rankTokens ?batch)) = Max (score ` set ?batch)"
    by (rule rankTokens_ranking [of ?batch, THEN conjunct2, THEN conjunct2, THEN conjunct2, THEN conjunct2])
  with ne m have top: "rank (hd (rankTokens ?batch)) = 1 \<and> score (hd (rankTokens ?batch)) = 90"
    by simp
  have "[1..<Suc (length ?batch)] = [1, 2, 3]"
    by (simp add: upt_rec)
  with ranks ne top show ?thesis by simp
qed

text \<open>In the example the two analyses of score 70 keep their input order, A before C.\<close>

lemma rankTokens_example:
  "map (\<lambda>a. (symbol (current a), rank a))
       (rankTokens [sample_analysis ''A'' 70, sample_analysis ''B'' 90, sample_analysis ''C'' 70])
     = [(''B'', 1), (''A'', 2), (''C'', 3)]"
  by (simp add: rankTokens_def sort_desc_def sample_analysis_def sample_token_def)

section \<open>Properties of the sustainability assessment\<close>

lemma calculateVolatility_nonneg: "0 \<le> calculateVolatility prices"
  by (simp add: calculateVolatility_def Let_def foldl_squares_nonneg)

lemma calculatePriceStability_range:
  "0 \<le> calculatePriceStability cur historical \<and> calculatePriceStability cur historical \<le> 1"
proof -
  have "0 \<le> calculateVolatility (map (\<lambda>h. js_or (price h) 0) (slice_last7 historical) @ [js_or (price cur) 0]) / 100"
    using calculateVolatility_nonneg by simp
  then show ?thesis
    by (simp add: calculatePriceStability_def Let_def)
qed

text \<open>The shape of the result: the neutral one below three points, the labelled average of the code's three sub-scores from three on.\<close>

lemma calculateSustainability_shape:
  "(length historical < 3 \<longrightarrow>
      calculateSustainability cur historical
        = InsufficientData 0.5 [''insufficient_data''] UnknownLevel
      \<and> overall (calculateSustainability cur historical) = UnknownLevel)
   \<and> (3 \<le> length historical \<longrightarrow>
        calculateSustainability cur historical
          = Assessed (calculateVolumeConsistency cur historical)
                     (calculateLiquidityStability cur historical)
                     (calculatePriceStability cur historical)
              (if (calculateVolumeConsistency cur historical
                     + calculateLiquidityStability cur historical
                     + calculatePriceStability cur historical) / 3 > 0.7 then High
               else if (calculateVolumeConsistency cur historical
                     + calculateLiquidityStability cur historical
                     + calculatePriceStability cur historical) / 3 < 0.3 then LowLevel
               else ModerateLevel))
   \<and> calculatePriceStability cur historical
        = max 0 (1 - calculateVolatility
                       (map (\<lambda>h. js_or (price h) 0) (slice_last7 historical) @ [js_or (price cur) 0]) / 100)
   \<and> 0 \<le> calculatePriceStability cur historical"
proof -
  have short: "length historical < 3 \<longrightarrow>
      calculateSustainability cur historical
        = InsufficientData 0.5 [''insufficient_data''] UnknownLevel
      \<and> overall (calculateSustainability cur historical) = UnknownLevel"
    by (simp add: calculateSustainability_def)
  have long: "3 \<le> length historical \<longrightarrow>
        calculateSustainability cur historical
          = Assessed (calculateVolumeConsistency cur historical)
                     (calculateLiquidityStability cur historical)
                     (calculatePriceStability cur historical)
              (if (calculateVolumeConsistency cur historical
                     + calculateLiquidityStability cur historical
                     + calculatePriceStability cur historical) / 3 > 0.7 then High
               else if (calculateVolumeConsistency cur historical
                     + calculateLiquidityStability cur historical
                     + calculatePriceStability cur historical) / 3 < 0.3 then LowLevel
               else ModerateLevel)"
    by (simp only: calculateSustainability_def Let_def) simp
  have ps: "calculatePriceStability cur historical
        = max 0 (1 - calculateVolatility
                       (map (\<lambda>h. js_or (price h) 0) (slice_last7 historical) @ [js_or (price cur) 0]) / 100)"
    by (simp only: calculatePriceStability_def Let_def)
  from short long ps calculatePriceStability_range [of cur historical]
  show ?thesis by blast
qed

lemma steady_volume: "calculateVolumeConsistency (sample_token ''X'' 1 10 5)
      [sample_token ''X'' 1 10 5, sample_token ''X'' 1 10 5, sample_token ''X'' 1 10 5] = 1"
  by (simp add: calculateVolumeConsistency_def calculateConsistency_def slice_last7_def
      sample_token_def js_or_def Let_def)

lemma steady_liquidity: "calculateLiquidityStability (sample_token ''X'' 1 10 5)
      [sample_token ''X'' 1 10 5, sample_token ''X'' 1 10 5, sample_token ''X'' 1 10 5] = 0"
  by (simp add: calculateLiquidityStability_def calculateConsistency_def slice_last7_def
      sample_token_def js_or_def Let_def)

lemma steady_price: "calculatePriceStability (sample_token ''X'' 1 10 5)
      [sample_token ''X'' 1 10 5, sample_token ''X'' 1 10 5, sample_token ''X'' 1 10 5] = 1"
  by (simp add: calculatePriceStability_def calculateVolatility_def slice_last7_def
      sample_token_def js_or_def Let_def)

lemma calculateSustainability_steady_example:
  "length ([] :: token list) < 3
   \<and> overall (calculateSustainability (sample_token ''X'' 1 10 5) []) = UnknownLevel
   \<and> 3 \<le> length [sample_token ''X'' 1 10 5, sample_token ''X'' 1 10 5, sample_token ''X'' 1 10 5]
   \<and> calculateSustainability (sample_token ''X'' 1 10 5)
        [sample_token ''X'' 1 10 5, sample_token ''X'' 1 10 5, sample_token ''X'' 1 10 5]
       = Assessed 1 0 1 ModerateLevel"
  using calculateSustainability_shape [of "[]" "sample_token ''X'' 1 10 5"]
        calculateSustainability_shape [of "[sample_token ''X'' 1 10 5, sample_token ''X'' 1 10 5,
                                            sample_token ''X'' 1 10 5]" "sample_token ''X'' 1 10 5"]
  by (simp add: steady_volume steady_liquidity steady_price)

lemma quiet_volume: "calculateVolumeConsistency active_now quiet_history = - 1"
  by (simp add: calculateVolumeConsistency_def calculateConsistency_def slice_last7_def
      quiet_history_def active_now_def sample_token_def js_or_def Let_def power2_eq_square)

lemma quiet_liquidity: "calculateLiquidityStability active_now quiet_history = - 1"
  by (simp add: calculateLiquidityStability_def calculateConsistency_def slice_last7_def
      quiet_history_def active_now_def sample_token_def js_or_def Let_def power2_eq_square)

lemma quiet_price: "calculatePriceStability active_now quiet_history = 1"
  by (simp add: calculatePriceStability_def calculateVolatility_def slice_last7_def
      quiet_history_def active_now_def sample_token_def js_or_def Let_def)

lemma quiet_length: "length quiet_history = 4"
  by (simp add: quiet_history_def)

lemma quiet_spec: "spec_sustainability active_now quiet_history = ModerateLevel"
  by (simp add: spec_sustainability_def spec_consistency_def calculateVolatility_def slice_last7_def
      quiet_history_def active_now_def sample_token_def Let_def power2_eq_square)

text \<open>
  C8. Below three historical points the assessment is the neutral one. From three points on
  the code averages its own sub-scores, and its two consistency sub-scores are not clamped
  at 0: for an asset whose volume and liquidity were 0 on four earlier days and are 5 now,
  at a constant price, they are -1 and -1 beside a price stability of 1, the average is
  -1/3 and the label is \<open>low\<close>. The specified consistency is 0 for both, the average 1/3,
  and the label \<open>moderate\<close>.
\<close>

theorem calculateSustainability_low_for_moderate:
  "calculateSustainability active_now quiet_history = Assessed (- 1) (- 1) 1 LowLevel
   \<and> spec_sustainability active_now quiet_history = ModerateLevel"
  by (simp add: calculateSustainability_def quiet_length quiet_volume quiet_liquidity quiet_price
      quiet_spec Let_def)

text \<open>Wherever the two consistency sub-scores are not negative, the code's label is the specified one.\<close>

lemma calculateSustainability_spec_sustainability:
  assumes "0 \<le> calculateVolumeConsistency cur historical"
    and "0 \<le> calculateLiquidityStability cur historical"
  shows "overall (calculateSustainability cur historical) = spec_sustainability cur historical"
proof (cases "length historical < 3")
  case True
  then show ?thesis
    by (simp add: calculateSustainability_def spec_sustainability_def)
next
  case False
  have v: "spec_consistency (map volume24h (slice_last7 historical) @ [volume24h cur])
             = calculateVolumeConsistency cur historical"
    using assms(1)
    by (simp add: calculateConsistency_spec_consistency calculateVolumeConsistency_def js_or_0)
  have l: "spec_consistency (map liquidity (slice_last7 historical) @ [liquidity cur])
             = calculateLiquidityStability cur historical"
    using assms(2)
    by (simp add: calculateConsistency_spec_consistency calculateLiquidityStability_def js_or_0)
  have p: "max 0 (1 - calculateVolatility (map price (slice_last7 historical) @ [price cur]) / 100)
             = calculatePriceStability cur historical"
    by (simp add: calculatePriceStability_def Let_def js_or_0)
  have "spec_sustainability cur historical =
      (if (calculateVolumeConsistency cur historical + calculateLiquidityStability cur historical
             + calculatePriceStability cur historical) / 3 > 0.7 then High
       else if (calculateVolumeConsistency cur historical + calculateLiquidityStability cur historical
             + calculatePriceStability cur historical) / 3 < 0.3 then LowLevel
       else ModerateLevel)"
    using False by (simp only: spec_sustainability_def Let_def v l p if_False)
  moreover have "overall (calculateSustainability cur historical) =
      (if (calculateVolumeConsistency cur historical + calculateLiquidityStability cur historical
             + calculatePriceStability cur historical) / 3 > 0.7 then High
       else if (calculateVolumeConsistency cur historical + calculateLiquidityStability cur historical
             + calculatePriceStability cur historical) / 3 < 0.3 then LowLevel
       else ModerateLevel)"
    using False by (simp only: calculateSustainability_def Let_def if_False overall.simps)
  ultimately show ?thesis by simp
qed

section \<open>Properties of the weekly aggregation\<close>

lemma add_day_obs: "add_day dd m = fold add_obs (day_obs dd) m"
  by (auto simp: add_day_def day_obs_def add_obs_def[abs_def] fold_map comp_def split: option.splits)

lemma fold_add_day: "fold add_day w m = fold add_obs (all_obs w) m"
  by (induction w arbitrary: m) (simp_all add: all_obs_def add_day_obs)

lemma map_of_add_token:
  "map_of (add_token d t m) =
     (map_of m)(token_key t \<mapsto>
        observe d t (case map_of m (token_key t) of None \<Rightarrow> new_entry d t | Some e \<Rightarrow> e))"
  by (cases "map_of m (token_key t)") (simp_all add: add_token_def Let_def update_conv')

lemma distinct_add_token: "distinct (map fst m) \<Longrightarrow> distinct (map fst (add_token d t m))"
  by (cases "map_of m (token_key t)") (simp_all add: add_token_def Let_def update_conv' distinct_update)

lemma distinct_fold_add_obs: "distinct (map fst m) \<Longrightarrow> distinct (map fst (fold add_obs os m))"
  by (induction os arbitrary: m) (simp_all add: add_obs_def distinct_add_token)

lemma map_of_add_obs:
  "map_of (add_obs ob m) =
     (map_of m)(token_key (snd ob) \<mapsto>
        obs_step (case map_of m (token_key (snd ob)) of
                    None \<Rightarrow> new_entry (fst ob) (snd ob) | Some e \<Rightarrow> e) ob)"
  by (simp add: add_obs_def map_of_add_token obs_step_def)

lemma map_of_fold_add_obs:
  "map_of (fold add_obs os m) k = run_obs (map_of m k) (filter (\<lambda>ob. token_key (snd ob) = k) os)"
proof (induction os arbitrary: m)
  case Nil
  show ?case by simp
next
  case (Cons ob os)
  show ?case
    by (simp add: Cons.IH map_of_add_obs)
qed

lemma run_obs_Some: "run_obs (Some e) os = Some (foldl obs_step e os)"
  by (induction os arbitrary: e) simp_all

lemma run_obs_None:
  "run_obs None os = (case os of [] \<Rightarrow> None | ob # os' \<Rightarrow> Some (entry_of ob os'))"
  by (cases os) (simp_all add: run_obs_Some entry_of_def)

text \<open>The map after the whole range holds, for every identity that appears, the accumulator of its appearances.\<close>

lemma aggregate_entry:
  "(k, e) \<in> set (fold add_day w []) \<longleftrightarrow> (\<exists>ob os. obs_of k w = ob # os \<and> e = entry_of ob os)"
proof -
  have d: "distinct (map fst (fold add_obs (all_obs w) []))"
    by (rule distinct_fold_add_obs) simp
  have "(k, e) \<in> set (fold add_day w []) \<longleftrightarrow> map_of (fold add_obs (all_obs w) []) k = Some e"
    using d by (simp add: fold_add_day)
  also have "\<dots> \<longleftrightarrow> run_obs None (obs_of k w) = Some e"
    by (simp add: map_of_fold_add_obs obs_of_def)
  also have "\<dots> \<longleftrightarrow> (\<exists>ob os. obs_of k w = ob # os \<and> e = entry_of ob os)"
    by (auto simp: run_obs_None split: list.splits)
  finally show ?thesis .
qed

lemma new_entry_fields:
  "dailyData (new_entry d t) = []" "daysActive (new_entry d t) = 0" "base (new_entry d t) = t"
  "maxMarketCap (new_entry d t) = marketCap t" "minMarketCap (new_entry d t) = marketCap t"
  "totalVolumeWeek (new_entry d t) = 0" "weeklyGrowth (new_entry d t) = 0"
  by (simp_all add: new_entry_def js_or_0)

lemma obs_step_dailyData: "dailyData (obs_step e ob) = dailyData e @ [point (fst ob) (snd ob)]"
  by (simp add: obs_step_def observe_def Let_def point_def)

lemma obs_step_daysActive: "daysActive (obs_step e ob) = daysActive e + 1"
  by (simp add: obs_step_def observe_def Let_def)

lemma obs_step_base: "base (obs_step e ob) = base e"
  by (simp add: obs_step_def observe_def Let_def)

lemma obs_step_maxMarketCap:
  "maxMarketCap (obs_step e ob) = max (maxMarketCap e) (marketCap (snd ob))"
  by (simp add: obs_step_def observe_def Let_def js_or_0)

lemma obs_step_minMarketCap:
  "minMarketCap (obs_step e ob) =
     (if marketCap (snd ob) = 0 then minMarketCap e
      else min (minMarketCap e) (marketCap (snd ob)))"
  by (simp add: obs_step_def observe_def Let_def or_Infinity_def)

lemma obs_step_totalVolumeWeek:
  "totalVolumeWeek (obs_step e ob) = totalVolumeWeek e + volume24h (snd ob)"
  by (simp add: obs_step_def observe_def Let_def js_or_0)

lemma obs_step_weeklyGrowth:
  "weeklyGrowth (obs_step e ob) =
     (case dailyData e of [] \<Rightarrow> weeklyGrowth e
      | p # ps \<Rightarrow> (if dp_price p > 0
                   then ((price (snd ob) - dp_price p) / dp_price p) * 100 else 0))"
  by (cases "dailyData e") (simp_all add: obs_step_def observe_def Let_def)

lemmas obs_step_fields = obs_step_dailyData obs_step_daysActive obs_step_base
  obs_step_maxMarketCap obs_step_minMarketCap obs_step_totalVolumeWeek obs_step_weeklyGrowth

lemma fold_dailyData:
  "dailyData (foldl obs_step a os) = dailyData a @ map (\<lambda>ob. point (fst ob) (snd ob)) os"
  by (induction os arbitrary: a) (simp_all add: obs_step_fields)

lemma fold_daysActive: "daysActive (foldl obs_step a os) = daysActive a + length os"
  by (induction os arbitrary: a) (simp_all add: obs_step_fields)

lemma fold_base: "base (foldl obs_step a os) = base a"
  by (induction os arbitrary: a) (simp_all add: obs_step_fields)

lemma fold_maxMarketCap:
  "maxMarketCap (foldl obs_step a os) = fold max (map (\<lambda>ob. marketCap (snd ob)) os) (maxMarketCap a)"
  by (induction os arbitrary: a) (simp_all add: obs_step_fields max.commute)

lemma fold_minMarketCap:
  "minMarketCap (foldl obs_step a os) =
     fold min (filter (\<lambda>m. m \<noteq> 0) (map (\<lambda>ob. marketCap (snd ob)) os)) (minMarketCap a)"
  by (induction os arbitrary: a) (simp_all add: obs_step_fields min.commute)

lemma fold_totalVolumeWeek:
  "totalVolumeWeek (foldl obs_step a os) =
     totalVolumeWeek a + sum_list (map (\<lambda>ob. volume24h (snd ob)) os)"
  by (induction os arbitrary: a) (simp_all add: obs_step_fields)

lemma fold_weeklyGrowth:
  assumes "dailyData a = p # ps" "os \<noteq> []"
  shows "weeklyGrowth (foldl obs_step a os) =
           (if dp_price p > 0 then ((price (snd (last os)) - dp_price p) / dp_price p) * 100 else 0)"
  using assms
proof (induction os arbitrary: a ps rule: rev_induct)
  case Nil
  then show ?case by simp
next
  case (snoc ob os)
  have "dailyData (foldl obs_step a os) = p # (ps @ map (\<lambda>ob. point (fst ob) (snd ob)) os)"
    by (simp add: fold_dailyData snoc.prems(1))
  then show ?case
    by (simp add: obs_step_fields)
qed

lemma entry_dailyData:
  "dailyData (entry_of ob os) = map (\<lambda>ob. point (fst ob) (snd ob)) (ob # os)"
  by (simp add: entry_of_def fold_dailyData obs_step_fields new_entry_fields)

lemma entry_daysActive: "daysActive (entry_of ob os) = length (ob # os)"
  by (simp add: entry_of_def fold_daysActive obs_step_fields new_entry_fields)

lemma entry_base: "base (entry_of ob os) = snd ob"
  by (simp add: entry_of_def fold_base obs_step_fields new_entry_fields)

lemma entry_maxMarketCap:
  "maxMarketCap (entry_of ob os) = Max (set (map (\<lambda>ob. marketCap (snd ob)) (ob # os)))"
  by (simp add: entry_of_def fold_maxMarketCap obs_step_fields new_entry_fields
      Max.set_eq_fold del: set_simps)

lemma entry_minMarketCap:
  "minMarketCap (entry_of ob os) =
     Min (set (marketCap (snd ob) # filter (\<lambda>m. m \<noteq> 0) (map (\<lambda>ob. marketCap (snd ob)) os)))"
  by (simp add: entry_of_def fold_minMarketCap obs_step_fields new_entry_fields
      Min.set_eq_fold del: set_simps)

lemma entry_totalVolumeWeek:
  "totalVolumeWeek (entry_of ob os) = sum_list (map (\<lambda>ob. volume24h (snd ob)) (ob # os))"
  by (simp add: entry_of_def fold_totalVolumeWeek obs_step_fields new_entry_fields)

lemma entry_weeklyGrowth:
  "weeklyGrowth (entry_of ob os) =
     (if os = [] then 0
      else if price (snd ob) > 0
           then ((price (snd (last os)) - price (snd ob)) / price (snd ob)) * 100 else 0)"
proof (cases "os = []")
  case True
  then show ?thesis
    by (simp add: entry_of_def obs_step_fields new_entry_fields)
next
  case False
  have "dailyData (obs_step (new_entry (fst ob) (snd ob)) ob) = point (fst ob) (snd ob) # []"
    by (simp add: obs_step_fields new_entry_fields)
  from fold_weeklyGrowth [OF this False] False show ?thesis
    by (simp add: entry_of_def point_def)
qed

lemma finish_token_fields:
  "dailyData (finish_token e) = dailyData e" "daysActive (finish_token e) = daysActive e"
  "base (finish_token e) = base e" "maxMarketCap (finish_token e) = maxMarketCap e"
  "minMarketCap (finish_token e) = minMarketCap e" "weeklyGrowth (finish_token e) = weeklyGrowth e"
  "totalVolumeWeek (finish_token e) = totalVolumeWeek e"
  "avgVolume (finish_token e) = totalVolumeWeek e / real (daysActive e)"
  "avgMarketCap (finish_token e) =
     foldl (\<lambda>sum day. sum + js_or (dp_marketCap day) 0) 0 (dailyData e) / real (length (dailyData e))"
  by (simp_all add: finish_token_def)

text \<open>Every element of the output is the finished accumulator of the appearances of its own identity.\<close>

lemma aggregate_output:
  assumes "x \<in> set (aggregateWeeklyTokenData w)"
  obtains ob os where "obs_of (token_key (base x)) w = ob # os" "x = finish_token (entry_of ob os)"
proof -
  from assms obtain k e where ke: "(k, e) \<in> set (fold add_day w [])" and x: "x = finish_token e"
    by (auto simp: aggregateWeeklyTokenData_def)
  from ke obtain ob os where ob: "obs_of k w = ob # os" and e: "e = entry_of ob os"
    by (auto simp: aggregate_entry)
  have "ob \<in> set (obs_of k w)" by (simp add: ob)
  then have "token_key (snd ob) = k" by (simp add: obs_of_def)
  then have "token_key (base x) = k" by (simp add: x e finish_token_fields entry_base)
  with ob x e that show ?thesis by blast
qed

lemma aggregate_has_key:
  assumes "obs_of k w = ob # os"
  shows "finish_token (entry_of ob os) \<in> set (aggregateWeeklyTokenData w)"
proof -
  have "(k, entry_of ob os) \<in> set (fold add_day w [])"
    using assms by (simp add: aggregate_entry)
  then show ?thesis
    by (force simp: aggregateWeeklyTokenData_def)
qed

text \<open>An identity that appears once in the range has an output element, with no growth and one active day.\<close>

lemma single_appearance:
  assumes "obs_of k weeklyData = [ob]"
  shows "\<exists>x \<in> set (aggregateWeeklyTokenData weeklyData).
           token_key (base x) = k \<and> weeklyGrowth x = 0 \<and> daysActive x = 1"
proof -
  have "finish_token (entry_of ob []) \<in> set (aggregateWeeklyTokenData weeklyData)"
    using assms by (rule aggregate_has_key)
  moreover have "ob \<in> set (obs_of k weeklyData)" by (simp add: assms)
  then have "token_key (snd ob) = k" by (simp add: obs_of_def)
  ultimately show ?thesis
    by (intro bexI [of _ "finish_token (entry_of ob [])"])
       (simp_all add: finish_token_fields entry_base entry_weeklyGrowth entry_daysActive)
qed

lemma gappy_week_aggregate:
  "aggregateWeeklyTokenData gappy_week =
     [finish_token (entry_of (''D1'', sample_token ''X'' 0 10 5)
                      [(''D2'', sample_token ''X'' 1 10 0), (''D3'', sample_token ''X'' 2 10 7)]),
      finish_token (entry_of (''D1'', sample_token ''Y'' 1 10 3) [])]"
  by (simp add: aggregateWeeklyTokenData_def gappy_week_def add_day_def add_token_def
      token_key_def sample_token_def Let_def entry_of_def obs_step_def)

lemma steady_week_aggregate:
  "aggregateWeeklyTokenData steady_week =
     [finish_token (entry_of (''D1'', sample_token ''X'' 1 10 5)
                      [(''D2'', sample_token ''X'' (3 / 2) 10 6), (''D3'', sample_token ''X'' 2 10 7)]),
      finish_token (entry_of (''D1'', sample_token ''Y'' 1 10 3) [])]"
  by (simp add: aggregateWeeklyTokenData_def steady_week_def steady_days_def add_day_def add_token_def
      token_key_def sample_token_def Let_def entry_of_def obs_step_def)

lemma sample_token_fields:
  "price (sample_token s p v m) = p" "volume24h (sample_token s p v m) = v"
  "marketCap (sample_token s p v m) = m" "priceChange24h (sample_token s p v m) = 0"
  by (simp_all add: sample_token_def)

text \<open>
  C10. Every asset in the output of the weekly aggregation has exactly one data point per
  appearance of its identity in the range, \<open>daysActive\<close> equal to the number of its data
  points, and at least one of them; so the divisors of \<open>avgVolume\<close>
  (\<open>daysActive\<close>) and of \<open>avgMarketCap\<close> (the number of data points) are never 0.
\<close>

theorem aggregate_daysActive_counts:
  "\<forall>x \<in> set (aggregateWeeklyTokenData weeklyData).
      dailyData x = map (\<lambda>ob. point (fst ob) (snd ob)) (obs_of (token_key (base x)) weeklyData)
    \<and> daysActive x = length (dailyData x)
    \<and> 1 \<le> daysActive x
    \<and> real (daysActive x) \<noteq> 0
    \<and> real (length (dailyData x)) \<noteq> 0
    \<and> avgVolume x = totalVolumeWeek x / real (daysActive x)
    \<and> avgMarketCap x =
        foldl (\<lambda>sum day. sum + js_or (dp_marketCap day) 0) 0 (dailyData x) / real (length (dailyData x))"
proof
  fix x assume "x \<in> set (aggregateWeeklyTokenData weeklyData)"
  then obtain ob os where ob: "obs_of (token_key (base x)) weeklyData = ob # os"
    and x: "x = finish_token (entry_of ob os)"
    by (rule aggregate_output)
  have dd: "dailyData x = map (\<lambda>ob. point (fst ob) (snd ob)) (ob # os)"
    by (simp add: x finish_token_fields entry_dailyData)
  have da: "daysActive x = length (ob # os)"
    by (simp add: x finish_token_fields entry_daysActive)
  have av: "avgVolume x = totalVolumeWeek x / real (daysActive x)"
    by (simp add: x finish_token_fields)
  have am: "avgMarketCap x =
        foldl (\<lambda>sum day. sum + js_or (dp_marketCap day) 0) 0 (dailyData x) / real (length (dailyData x))"
    by (simp add: x finish_token_fields)
  from dd da av am ob
  show "dailyData x = map (\<lambda>ob. point (fst ob) (snd ob)) (obs_of (token_key (base x)) weeklyData)
    \<and> daysActive x = length (dailyData x)
    \<and> 1 \<le> daysActive x
    \<and> real (daysActive x) \<noteq> 0
    \<and> real (length (dailyData x)) \<noteq> 0
    \<and> avgVolume x = totalVolumeWeek x / real (daysActive x)
    \<and> avgMarketCap x =
        foldl (\<lambda>sum day. sum + js_or (dp_marketCap day) 0) 0 (dailyData x) / real (length (dailyData x))"
    by simp
qed

theorem aggregate_daysActive_counts_witness:
  "hd (aggregateWeeklyTokenData steady_week) \<in> set (aggregateWeeklyTokenData steady_week)
   \<and> daysActive (hd (aggregateWeeklyTokenData steady_week)) = 3
   \<and> length (dailyData (hd (aggregateWeeklyTokenData steady_week))) = 3
   \<and> avgVolume (hd (aggregateWeeklyTokenData steady_week)) = 10"
proof -
  let ?x = "hd (aggregateWeeklyTokenData steady_week)"
  have mem: "?x \<in> set (aggregateWeeklyTokenData steady_week)"
    by (simp add: steady_week_aggregate)
  have len: "length (dailyData ?x) = 3"
    by (simp add: steady_week_aggregate finish_token_fields entry_dailyData)
  have tv: "totalVolumeWeek ?x = 30"
    by (simp add: steady_week_aggregate finish_token_fields entry_totalVolumeWeek sample_token_fields)
  from aggregate_daysActive_counts [of steady_week, THEN bspec, OF mem]
  have "daysActive ?x = length (dailyData ?x)"
    and "avgVolume ?x = totalVolumeWeek ?x / real (daysActive ?x)"
    by simp_all
  with mem len tv show ?thesis by simp
qed

lemma last_filter_keep:
  assumes "xs \<noteq> []" "P (last xs)"
  shows "last (filter P xs) = last xs"
proof -
  have "filter P (butlast xs @ [last xs]) = filter P (butlast xs) @ [last xs]"
    using assms(2) by simp
  then show ?thesis
    using assms(1) by (simp del: filter_append)
qed

lemma spec_growth_between_valid_ends:
  assumes "2 \<le> length ps" "0 < hd ps" "0 < last ps"
  shows "spec_weeklyGrowth ps = ((last ps - hd ps) / hd ps) * 100"
proof -
  from assms(1) obtain p qs where ps: "ps = p # qs" by (cases ps) auto
  have p: "0 < p" using assms(2) ps by simp
  have "last (filter (\<lambda>p. p > 0) ps) = last ps"
    using assms(3) ps by (intro last_filter_keep) simp_all
  then have "last (p # filter (\<lambda>p. p > 0) qs) = last ps"
    using p ps by simp
  then show ?thesis
    using assms(1) p ps by (simp add: spec_weeklyGrowth_def calculatePercentageChange_def falsy_def)
qed

text \<open>
  C5. For every asset of the aggregation with at least two data points, \<open>weeklyGrowth\<close> is
  the percent change from the price of its first data point to the price of its most recent
  data point when the first price is positive, and 0 otherwise. When both of these prices
  are valid (positive) this is the growth from the earliest to the most recent valid price.
  An identity with a single appearance in the range has \<open>weeklyGrowth = 0\<close> and
  \<open>daysActive = 1\<close>.
\<close>

theorem weeklyGrowth_endpoints:
  "\<forall>x \<in> set (aggregateWeeklyTokenData weeklyData).
      (2 \<le> length (dailyData x) \<longrightarrow>
         weeklyGrowth x =
           (if dp_price (hd (dailyData x)) > 0
            then ((dp_price (last (dailyData x)) - dp_price (hd (dailyData x)))
                    / dp_price (hd (dailyData x))) * 100
            else 0))
    \<and> (2 \<le> length (dailyData x) \<and> 0 < dp_price (hd (dailyData x))
          \<and> 0 < dp_price (last (dailyData x)) \<longrightarrow>
         weeklyGrowth x = spec_weeklyGrowth (map dp_price (dailyData x)))
    \<and> (length (obs_of (token_key (base x)) weeklyData) = 1 \<longrightarrow>
         weeklyGrowth x = 0 \<and> daysActive x = 1)"
proof
  fix x assume "x \<in> set (aggregateWeeklyTokenData weeklyData)"
  then obtain ob os where ob: "obs_of (token_key (base x)) weeklyData = ob # os"
    and x: "x = finish_token (entry_of ob os)"
    by (rule aggregate_output)
  have dd: "dailyData x = map (\<lambda>ob. point (fst ob) (snd ob)) (ob # os)"
    by (simp add: x finish_token_fields entry_dailyData)
  have first: "dp_price (hd (dailyData x)) = price (snd ob)"
    by (simp add: dd point_def)
  have last: "dp_price (last (dailyData x)) = price (snd (last os))" if "os \<noteq> []"
    using that by (simp add: dd last_map point_def)
  have wg: "weeklyGrowth x =
     (if os = [] then 0
      else if price (snd ob) > 0
           then ((price (snd (last os)) - price (snd ob)) / price (snd ob)) * 100 else 0)"
    by (simp add: x finish_token_fields entry_weeklyGrowth)
  have da: "daysActive x = length (ob # os)"
    by (simp add: x finish_token_fields entry_daysActive)
  have long: "weeklyGrowth x =
           (if dp_price (hd (dailyData x)) > 0
            then ((dp_price (last (dailyData x)) - dp_price (hd (dailyData x)))
                    / dp_price (hd (dailyData x))) * 100
            else 0)" if "2 \<le> length (dailyData x)"
  proof -
    from that have "os \<noteq> []" by (auto simp: dd)
    then show ?thesis by (simp add: wg first last)
  qed
  have spec: "weeklyGrowth x = spec_weeklyGrowth (map dp_price (dailyData x))"
    if "2 \<le> length (dailyData x) \<and> 0 < dp_price (hd (dailyData x))
          \<and> 0 < dp_price (last (dailyData x))"
  proof -
    from that have ne: "dailyData x \<noteq> []" by auto
    have "spec_weeklyGrowth (map dp_price (dailyData x))
        = ((last (map dp_price (dailyData x)) - hd (map dp_price (dailyData x)))
             / hd (map dp_price (dailyData x))) * 100"
      using that ne by (intro spec_growth_between_valid_ends) (simp_all add: hd_map last_map)
    with that ne long show ?thesis by (simp add: hd_map last_map)
  qed
  have single: "weeklyGrowth x = 0 \<and> daysActive x = 1"
    if "length (obs_of (token_key (base x)) weeklyData) = 1"
    using that by (simp add: ob wg da)
  from long spec single
  show "(2 \<le> length (dailyData x) \<longrightarrow>
         weeklyGrowth x =
           (if dp_price (hd (dailyData x)) > 0
            then ((dp_price (last (dailyData x)) - dp_price (hd (dailyData x)))
                    / dp_price (hd (dailyData x))) * 100
            else 0))
    \<and> (2 \<le> length (dailyData x) \<and> 0 < dp_price (hd (dailyData x))
          \<and> 0 < dp_price (last (dailyData x)) \<longrightarrow>
         weeklyGrowth x = spec_weeklyGrowth (map dp_price (dailyData x)))
    \<and> (length (obs_of (token_key (base x)) weeklyData) = 1 \<longrightarrow>
         weeklyGrowth x = 0 \<and> daysActive x = 1)"
    by blast
qed

text \<open>
  An asset priced 0, 1, 2 on three days: the earliest valid price is 1 and the most recent 2,
  a growth of 100 percent, but the first data point's price is 0 and the code reports 0.
\<close>

theorem weeklyGrowth_gap_counterexample:
  "map dp_price (dailyData (hd (aggregateWeeklyTokenData gappy_week))) = [0, 1, 2]
   \<and> weeklyGrowth (hd (aggregateWeeklyTokenData gappy_week)) = 0
   \<and> spec_weeklyGrowth [0, 1, 2] = 100"
  by (simp add: gappy_week_aggregate finish_token_fields entry_dailyData entry_weeklyGrowth
      sample_token_fields point_def spec_weeklyGrowth_def calculatePercentageChange_def falsy_def)

text \<open>
  C7. The running minimum starts from the asset's first observation, and a later observation
  whose market cap is 0 is read as \<open>+\<infinity>\<close> and skipped. After the whole range
  \<open>maxMarketCap\<close> is the maximum of the market caps of the asset's data points; if the
  first data point's market cap is not 0, \<open>minMarketCap\<close> is the minimum of the non-zero
  market caps; and if no data point has market cap 0 it is the minimum of them all.
\<close>

theorem marketCap_extremes:
  "\<forall>x \<in> set (aggregateWeeklyTokenData weeklyData).
      dailyData x \<noteq> []
    \<and> maxMarketCap x = Max (set (map dp_marketCap (dailyData x)))
    \<and> (dp_marketCap (hd (dailyData x)) \<noteq> 0 \<longrightarrow>
         minMarketCap x = Min (set (filter (\<lambda>m. m \<noteq> 0) (map dp_marketCap (dailyData x)))))
    \<and> ((\<forall>m \<in> set (map dp_marketCap (dailyData x)). m \<noteq> 0) \<longrightarrow>
         minMarketCap x = Min (set (map dp_marketCap (dailyData x))))"
proof
  fix x assume "x \<in> set (aggregateWeeklyTokenData weeklyData)"
  then obtain ob os where x: "x = finish_token (entry_of ob os)"
    by (rule aggregate_output)
  define c where "c = marketCap (snd ob)"
  define cs where "cs = map (\<lambda>ob. marketCap (snd ob)) os"
  have caps: "map dp_marketCap (dailyData x) = c # cs"
    by (simp add: x finish_token_fields entry_dailyData point_def c_def cs_def comp_def)
  have ne: "dailyData x \<noteq> []"
    by (simp add: x finish_token_fields entry_dailyData)
  have first: "dp_marketCap (hd (dailyData x)) = c"
    using caps ne by (metis hd_map list.sel(1))
  have mx: "maxMarketCap x = Max (set (c # cs))"
    by (simp add: x finish_token_fields entry_maxMarketCap c_def cs_def del: set_simps)
  have mn: "minMarketCap x = Min (set (c # filter (\<lambda>m. m \<noteq> 0) cs))"
    by (simp add: x finish_token_fields entry_minMarketCap c_def cs_def del: set_simps)
  have mn1: "minMarketCap x = Min (set (filter (\<lambda>m. m \<noteq> 0) (c # cs)))" if "c \<noteq> 0"
    using that mn by simp
  have mn2: "minMarketCap x = Min (set (c # cs))" if "\<forall>m \<in> set (c # cs). m \<noteq> 0"
  proof -
    from that have "filter (\<lambda>m. m \<noteq> 0) cs = cs" by (auto intro: filter_True)
    with mn show ?thesis by simp
  qed
  from ne mx mn1 mn2 first
  show "dailyData x \<noteq> []
    \<and> maxMarketCap x = Max (set (map dp_marketCap (dailyData x)))
    \<and> (dp_marketCap (hd (dailyData x)) \<noteq> 0 \<longrightarrow>
         minMarketCap x = Min (set (filter (\<lambda>m. m \<noteq> 0) (map dp_marketCap (dailyData x)))))
    \<and> ((\<forall>m \<in> set (map dp_marketCap (dailyData x)). m \<noteq> 0) \<longrightarrow>
         minMarketCap x = Min (set (map dp_marketCap (dailyData x))))"
    unfolding caps by blast
qed

text \<open>
  An asset with market caps 5, 0, 7 on three days: the minimum over its data points is 0,
  the running minimum is 5.
\<close>

theorem marketCap_gap_counterexample:
  "map dp_marketCap (dailyData (hd (aggregateWeeklyTokenData gappy_week))) = [5, 0, 7]
   \<and> minMarketCap (hd (aggregateWeeklyTokenData gappy_week)) = 5
   \<and> Min (set [5, 0, 7 :: real]) = 0"
  by (simp add: gappy_week_aggregate finish_token_fields entry_dailyData entry_minMarketCap
      sample_token_fields point_def)

lemma steady_X_points:
  "dailyData (hd (aggregateWeeklyTokenData steady_week)) =
     [point ''D1'' (sample_token ''X'' 1 10 5), point ''D2'' (sample_token ''X'' (3 / 2) 10 6),
      point ''D3'' (sample_token ''X'' 2 10 7)]"
  by (simp add: steady_week_aggregate finish_token_fields entry_dailyData)

lemma point_fields:
  "dp_price (point d (sample_token s p v m)) = p"
  "dp_marketCap (point d (sample_token s p v m)) = m"
  by (simp_all add: point_def sample_token_def)

theorem weeklyGrowth_endpoints_witness:
  "hd (aggregateWeeklyTokenData steady_week) \<in> set (aggregateWeeklyTokenData steady_week)
   \<and> 2 \<le> length (dailyData (hd (aggregateWeeklyTokenData steady_week)))
   \<and> 0 < dp_price (hd (dailyData (hd (aggregateWeeklyTokenData steady_week))))
   \<and> 0 < dp_price (last (dailyData (hd (aggregateWeeklyTokenData steady_week))))
   \<and> weeklyGrowth (hd (aggregateWeeklyTokenData steady_week)) = 100
   \<and> last (aggregateWeeklyTokenData steady_week) \<in> set (aggregateWeeklyTokenData steady_week)
   \<and> length (obs_of (token_key (base (last (aggregateWeeklyTokenData steady_week)))) steady_week) = 1
   \<and> weeklyGrowth (last (aggregateWeeklyTokenData steady_week)) = 0
   \<and> daysActive (last (aggregateWeeklyTokenData steady_week)) = 1"
proof -
  let ?x = "hd (aggregateWeeklyTokenData steady_week)"
  let ?y = "last (aggregateWeeklyTokenData steady_week)"
  have memx: "?x \<in> set (aggregateWeeklyTokenData steady_week)"
    by (simp add: steady_week_aggregate)
  have memy: "?y \<in> set (aggregateWeeklyTokenData steady_week)"
    by (simp add: steady_week_aggregate)
  have hx: "2 \<le> length (dailyData ?x) \<and> 0 < dp_price (hd (dailyData ?x))
              \<and> 0 < dp_price (last (dailyData ?x))"
    by (simp add: steady_X_points point_fields)
  have "token_key (base ?y) = ''Y''"
    by (simp add: steady_week_aggregate finish_token_fields entry_base token_key_def sample_token_def)
  then have hy: "length (obs_of (token_key (base ?y)) steady_week) = 1"
    by (simp add: obs_of_def all_obs_def day_obs_def steady_week_def steady_days_def
        token_key_def sample_token_def)
  have sp: "spec_weeklyGrowth (map dp_price (dailyData ?x)) = 100"
    by (simp add: steady_X_points point_fields spec_weeklyGrowth_def
        calculatePercentageChange_def falsy_def)
  from weeklyGrowth_endpoints [of steady_week, THEN bspec, OF memx] hx sp
  have gx: "weeklyGrowth ?x = 100" by simp
  from weeklyGrowth_endpoints [of steady_week, THEN bspec, OF memy] hy
  have gy: "weeklyGrowth ?y = 0 \<and> daysActive ?y = 1" by blast
  from memx memy hx hy gx gy show ?thesis by blast
qed

theorem marketCap_extremes_witness:
  "hd (aggregateWeeklyTokenData steady_week) \<in> set (aggregateWeeklyTokenData steady_week)
   \<and> map dp_marketCap (dailyData (hd (aggregateWeeklyTokenData steady_week))) = [5, 6, 7]
   \<and> dp_marketCap (hd (dailyData (hd (aggregateWeeklyTokenData steady_week)))) \<noteq> 0
   \<and> minMarketCap (hd (aggregateWeeklyTokenData steady_week)) = 5
   \<and> maxMarketCap (hd (aggregateWeeklyTokenData steady_week)) = 7"
proof -
  let ?x = "hd (aggregateWeeklyTokenData steady_week)"
  have memx: "?x \<in> set (aggregateWeeklyTokenData steady_week)"
    by (simp add: steady_week_aggregate)
  have caps: "map dp_marketCap (dailyData ?x) = [5, 6, 7]"
    by (simp add: steady_X_points point_fields)
  have h1: "dp_marketCap (hd (dailyData ?x)) \<noteq> 0"
    by (simp add: steady_X_points point_fields)
  have h2: "\<forall>m \<in> set (map dp_marketCap (dailyData ?x)). m \<noteq> 0"
    by (simp add: caps)
  from marketCap_extremes [of steady_week, THEN bspec, OF memx] h2
  have "minMarketCap ?x = Min (set (map dp_marketCap (dailyData ?x)))"
    and "maxMarketCap ?x = Max (set (map dp_marketCap (dailyData ?x)))"
    by blast+
  then have "minMarketCap ?x = 5" and "maxMarketCap ?x = 7"
    by (simp_all add: caps)
  with memx caps h1 show ?thesis by blast
qed

section \<open>Properties of the cohort survival analysis\<close>

lemma set_fold_Set_add: "set (fold Set_add ks s) = set ks \<union> set s"
  by (induction ks arbitrary: s) (auto simp: Set_add_def)

lemma distinct_fold_Set_add: "distinct s \<Longrightarrow> distinct (fold Set_add ks s)"
  by (induction ks arbitrary: s) (auto simp: Set_add_def)

lemma set_new_Set: "set (new_Set ks) = set ks"
  by (simp add: new_Set_def set_fold_Set_add)

lemma distinct_new_Set: "distinct (new_Set ks)"
  by (simp add: new_Set_def distinct_fold_Set_add)

lemma length_new_Set: "length (new_Set ks) = card (set ks)"
  using distinct_card [OF distinct_new_Set, of ks] by (simp add: set_new_Set)

lemma length_filter_new_Set: "length (filter P (new_Set ks)) = card {k \<in> set ks. P k}"
proof -
  have "length (filter P (new_Set ks)) = card ({k. P k} \<inter> set (new_Set ks))"
    by (rule distinct_length_filter) (rule distinct_new_Set)
  also have "{k. P k} \<inter> set (new_Set ks) = {k \<in> set ks. P k}"
    by (auto simp: set_new_Set)
  finally show ?thesis .
qed

text \<open>
  C6. For a range of at least two snapshots whose first and last hold token arrays, the
  cohort result counts: \<open>survived\<close> is the size of the intersection of the two identity
  sets, \<open>dropped\<close> the size of the first set minus \<open>survived\<close>, \<open>newEntrants\<close> the number
  of identities of the last set that are not in the first, and \<open>survivalRate\<close> is
  \<open>survived / startingTokens * 100\<close>, or 0 when the first set is empty. With fewer than two
  snapshots there is no result.
\<close>

theorem analyzeSurvivalRates_cohort:
  "(length weeklyData < 2 \<longrightarrow> analyzeSurvivalRates weeklyData = None)
   \<and> (2 \<le> length weeklyData \<and> day_tokens (hd weeklyData) = Some firstTokens
         \<and> day_tokens (last weeklyData) = Some lastTokens \<longrightarrow>
        analyzeSurvivalRates weeklyData =
          Some \<lparr> startingTokens = card (token_key ` set firstTokens),
                 endingTokens = card (token_key ` set lastTokens),
                 survived = card (token_key ` set firstTokens \<inter> token_key ` set lastTokens),
                 dropped = int (card (token_key ` set firstTokens))
                           - int (card (token_key ` set firstTokens \<inter> token_key ` set lastTokens)),
                 newEntrants = card (token_key ` set lastTokens - token_key ` set firstTokens),
                 survivalRate =
                   (if card (token_key ` set firstTokens) = 0 then 0
                    else (real (card (token_key ` set firstTokens \<inter> token_key ` set lastTokens))
                            / real (card (token_key ` set firstTokens))) * 100) \<rparr>)"
proof -
  have short: "length weeklyData < 2 \<longrightarrow> analyzeSurvivalRates weeklyData = None"
    by (simp add: analyzeSurvivalRates_def)
  have long: "analyzeSurvivalRates weeklyData =
          Some \<lparr> startingTokens = card (token_key ` set firstTokens),
                 endingTokens = card (token_key ` set lastTokens),
                 survived = card (token_key ` set firstTokens \<inter> token_key ` set lastTokens),
                 dropped = int (card (token_key ` set firstTokens))
                           - int (card (token_key ` set firstTokens \<inter> token_key ` set lastTokens)),
                 newEntrants = card (token_key ` set lastTokens - token_key ` set firstTokens),
                 survivalRate =
                   (if card (token_key ` set firstTokens) = 0 then 0
                    else (real (card (token_key ` set firstTokens \<inter> token_key ` set lastTokens))
                            / real (card (token_key ` set firstTokens))) * 100) \<rparr>"
    if len: "2 \<le> length weeklyData" and f: "day_tokens (hd weeklyData) = Some firstTokens"
      and l: "day_tokens (last weeklyData) = Some lastTokens"
  proof -
    from len have ne: "weeklyData \<noteq> []" by auto
    have f': "day_tokens (weeklyData ! 0) = Some firstTokens"
      using f ne by (simp add: hd_conv_nth)
    have l': "day_tokens (weeklyData ! (length weeklyData - Suc 0)) = Some lastTokens"
      using l ne by (simp add: last_conv_nth)
    define FK where "FK = new_Set (map token_key firstTokens)"
    define LK where "LK = new_Set (map token_key lastTokens)"
    have r: "analyzeSurvivalRates weeklyData =
        Some \<lparr> startingTokens = length FK, endingTokens = length LK,
               survived = length (filter (\<lambda>k. Set_has LK k) FK),
               dropped = int (length FK) - int (length (filter (\<lambda>k. Set_has LK k) FK)),
               newEntrants = length (filter (\<lambda>k. \<not> Set_has FK k) LK),
               survivalRate =
                 (if length FK > 0
                  then (real (length (filter (\<lambda>k. Set_has LK k) FK)) / real (length FK)) * 100
                  else 0) \<rparr>"
      using len by (simp add: analyzeSurvivalRates_def Let_def f' l' FK_def LK_def)
    have a: "length FK = card (token_key ` set firstTokens)"
      by (simp add: FK_def length_new_Set)
    have b: "length LK = card (token_key ` set lastTokens)"
      by (simp add: LK_def length_new_Set)
    have "{k \<in> set (map token_key firstTokens). Set_has LK k}
              = token_key ` set firstTokens \<inter> token_key ` set lastTokens"
      by (auto simp: Set_has_def LK_def set_new_Set)
    then have c: "length (filter (\<lambda>k. Set_has LK k) FK)
              = card (token_key ` set firstTokens \<inter> token_key ` set lastTokens)"
      by (simp only: FK_def length_filter_new_Set)
    have "{k \<in> set (map token_key lastTokens). \<not> Set_has FK k}
              = token_key ` set lastTokens - token_key ` set firstTokens"
      by (auto simp: Set_has_def FK_def set_new_Set)
    then have d: "length (filter (\<lambda>k. \<not> Set_has FK k) LK)
              = card (token_key ` set lastTokens - token_key ` set firstTokens)"
      by (simp only: LK_def length_filter_new_Set)
    show ?thesis
      unfolding r a b c d by simp
  qed
  from short long show ?thesis by blast
qed

lemma sample_key: "token_key (sample_token s p v m) = s"
  by (simp add: token_key_def sample_token_def)

theorem analyzeSurvivalRates_cohort_witness:
  "2 \<le> length cohort_week
   \<and> day_tokens (hd cohort_week)
       = Some [sample_token ''A'' 1 1 1, sample_token ''B'' 1 1 1, sample_token ''C'' 1 1 1]
   \<and> day_tokens (last cohort_week)
       = Some [sample_token ''B'' 1 1 1, sample_token ''C'' 1 1 1, sample_token ''D'' 1 1 1]
   \<and> analyzeSurvivalRates cohort_week
       = Some \<lparr> startingTokens = 3, endingTokens = 3, survived = 2, dropped = 1,
                newEntrants = 1, survivalRate = 200 / 3 \<rparr>"
proof -
  have h: "2 \<le> length cohort_week
   \<and> day_tokens (hd cohort_week)
       = Some [sample_token ''A'' 1 1 1, sample_token ''B'' 1 1 1, sample_token ''C'' 1 1 1]
   \<and> day_tokens (last cohort_week)
       = Some [sample_token ''B'' 1 1 1, sample_token ''C'' 1 1 1, sample_token ''D'' 1 1 1]"
    by (simp add: cohort_week_def day_tokens_def)
  have i: "{''A'', ''B'', ''C''} \<inter> {''B'', ''C'', ''D''} = {''B'', ''C''}" by auto
  have d: "{''B'', ''C'', ''D''} - {''A'', ''B'', ''C''} = {''D''}" by auto
  from analyzeSurvivalRates_cohort [of cohort_week
        "[sample_token ''A'' 1 1 1, sample_token ''B'' 1 1 1, sample_token ''C'' 1 1 1]"
        "[sample_token ''B'' 1 1 1, sample_token ''C'' 1 1 1, sample_token ''D'' 1 1 1]"] h
  have "analyzeSurvivalRates cohort_week
       = Some \<lparr> startingTokens = 3, endingTokens = 3, survived = 2, dropped = 1,
                newEntrants = 1, survivalRate = 200 / 3 \<rparr>"
    by (simp add: sample_key i d)
  with h show ?thesis by blast
qed

section \<open>Properties of the top-performer queries\<close>

lemma sorted_wrt_take_prefix: "sorted_wrt R xs \<Longrightarrow> sorted_wrt R (take n xs)"
proof -
  assume "sorted_wrt R xs"
  then have "sorted_wrt R (take n xs @ drop n xs)" by simp
  then show ?thesis unfolding sorted_wrt_append by blast
qed

lemma collect_performance_Nil: "collect_performance [] = []"
  by (simp add: collect_performance_def)

lemma getTopPerformers_pipeline:
  "getTopPerformers historicalData days limit =
     take limit (sort_desc periodGrowth (map to_performer
       (filter (\<lambda>q. min (real days * 0.5) 3 \<le> real (perf_daysActive q))
               (map snd (collect_performance historicalData)))))"
  by (cases historicalData) (simp_all add: getTopPerformers_def collect_performance_Nil sort_desc_def)

lemma getTopPerformers_member:
  assumes "p \<in> set (getTopPerformers historicalData days limit)"
  obtains q where "q \<in> set (map snd (collect_performance historicalData))"
    and "p = to_performer q" and "min (real days * 0.5) 3 \<le> real (perf_daysActive q)"
proof -
  from assms have "p \<in> set (sort_desc periodGrowth (map to_performer
       (filter (\<lambda>q. min (real days * 0.5) 3 \<le> real (perf_daysActive q))
               (map snd (collect_performance historicalData)))))"
    unfolding getTopPerformers_pipeline by (rule in_set_takeD)
  then have "p \<in> to_performer ` {q \<in> set (map snd (collect_performance historicalData)).
                 min (real days * 0.5) 3 \<le> real (perf_daysActive q)}"
    by (simp add: set_sort_desc)
  with that show ?thesis by blast
qed

lemma collect_performance_fold:
  "collect_performance historicalData = fold perf_step (window_tokens historicalData) []"
proof -
  have "fold (\<lambda>day tp. fold perf_step (case tokens day of None \<Rightarrow> [] | Some ts \<Rightarrow> ts) tp) hs m
          = fold perf_step (window_tokens hs) m" for hs m
    by (induction hs arbitrary: m) (simp_all add: window_tokens_def)
  then show ?thesis by (simp add: collect_performance_def)
qed

lemma map_of_perf_step:
  "map_of (perf_step t m) =
     (map_of m)(token_key t \<mapsto>
        perf_seen (case map_of m (token_key t) of None \<Rightarrow> perf_new t | Some p \<Rightarrow> p) t)"
  by (cases "map_of m (token_key t)")
     (simp_all add: perf_step_def Let_def update_conv' perf_seen_def perf_new_def)

lemma distinct_perf_step: "distinct (map fst m) \<Longrightarrow> distinct (map fst (perf_step t m))"
  by (cases "map_of m (token_key t)") (simp_all add: perf_step_def Let_def update_conv' distinct_update)

lemma distinct_fold_perf_step: "distinct (map fst m) \<Longrightarrow> distinct (map fst (fold perf_step ts m))"
  by (induction ts arbitrary: m) (simp_all add: distinct_perf_step)

lemma map_of_fold_perf_step:
  "map_of (fold perf_step ts m) k = run_perf (map_of m k) (filter (\<lambda>t. token_key t = k) ts)"
proof (induction ts arbitrary: m)
  case Nil
  show ?case by simp
next
  case (Cons t ts)
  show ?case by (simp add: Cons.IH map_of_perf_step)
qed

lemma run_perf_Some: "run_perf (Some p) ts = Some (foldl perf_seen p ts)"
  by (induction ts arbitrary: p) simp_all

lemma run_perf_None:
  "run_perf None ts = (case ts of [] \<Rightarrow> None | t # ts' \<Rightarrow> Some (perf_of t ts'))"
  by (cases ts) (simp_all add: run_perf_Some perf_of_def)

lemma collect_entry:
  "(k, q) \<in> set (collect_performance historicalData) \<longleftrightarrow>
     (\<exists>t ts. appearances k historicalData = t # ts \<and> q = perf_of t ts)"
proof -
  have d: "distinct (map fst (fold perf_step (window_tokens historicalData) []))"
    by (rule distinct_fold_perf_step) simp
  have "(k, q) \<in> set (collect_performance historicalData)
          \<longleftrightarrow> map_of (fold perf_step (window_tokens historicalData) []) k = Some q"
    using d by (simp add: collect_performance_fold)
  also have "\<dots> \<longleftrightarrow> run_perf None (appearances k historicalData) = Some q"
    by (simp add: map_of_fold_perf_step appearances_def)
  also have "\<dots> \<longleftrightarrow> (\<exists>t ts. appearances k historicalData = t # ts \<and> q = perf_of t ts)"
    by (auto simp: run_perf_None split: list.splits)
  finally show ?thesis .
qed

lemma fold_perf_daysActive: "perf_daysActive (foldl perf_seen p ts) = perf_daysActive p + length ts"
  by (induction ts arbitrary: p) (simp_all add: perf_seen_def)

lemma fold_firstPrice: "firstPrice (foldl perf_seen p ts) = firstPrice p"
  by (induction ts arbitrary: p) (simp_all add: perf_seen_def)

lemma fold_lastPrice:
  "lastPrice (foldl perf_seen p ts) = (if ts = [] then lastPrice p else price (last ts))"
  by (induction ts arbitrary: p) (simp_all add: perf_seen_def)

lemma fold_perf_token:
  "perf_token (foldl perf_seen p ts) = (if ts = [] then perf_token p else last ts)"
  by (induction ts arbitrary: p) (simp_all add: perf_seen_def)

lemma perf_of_fields:
  "perf_daysActive (perf_of t ts) = length (t # ts)"
  "firstPrice (perf_of t ts) = price (hd (t # ts))"
  "lastPrice (perf_of t ts) = price (last (t # ts))"
  "perf_token (perf_of t ts) = last (t # ts)"
  by (simp_all add: perf_of_def fold_perf_daysActive fold_firstPrice fold_lastPrice fold_perf_token
      perf_seen_def perf_new_def)

text \<open>Every accumulator of the scan belongs to the appearances of its own last token's identity.\<close>

lemma collect_performance_member:
  assumes "q \<in> set (map snd (collect_performance historicalData))"
  obtains t ts where "appearances (token_key (perf_token q)) historicalData = t # ts"
    and "q = perf_of t ts"
proof -
  from assms obtain k where "(k, q) \<in> set (collect_performance historicalData)" by auto
  then obtain t ts where a: "appearances k historicalData = t # ts" and q: "q = perf_of t ts"
    by (auto simp: collect_entry)
  have "last (t # ts) \<in> set (appearances k historicalData)"
    unfolding a by (rule last_in_set) simp
  then have "token_key (last (t # ts)) = k" by (simp add: appearances_def)
  then have "token_key (perf_token q) = k" by (simp add: q perf_of_fields)
  with a q that show ?thesis by blast
qed

lemma two_day_window_performance:
  "collect_performance two_day_window =
     [(''X'', \<lparr> perf_token = sample_token ''X'' 2 10 5, firstPrice = 1, lastPrice = 2,
                totalVolume = 20, perf_daysActive = 2, perf_maxMarketCap = 5 \<rparr>)]"
  by (simp add: collect_performance_def two_day_window_def perf_step_def token_key_def
      sample_token_def js_or_def Let_def)

text \<open>
  C4. \<^verbatim>\<open>getTopPerformers\<close> returns only assets with
  \<open>daysActive \<ge> min (0.5 * days) 3\<close>, where \<open>daysActive\<close> is the number of
  appearances of the asset in the window. The threshold is capped at 3; as \<open>daysActive\<close>
  is a whole number it is a floor of three active days for windows of five days or more,
  while for windows of four days or fewer every asset active on two days qualifies and
  assets active on fewer than three days are returned. The qualifying assets are sorted by
  descending period growth, which is \<open>(lastPrice - firstPrice) / firstPrice * 100\<close> on the
  prices of the asset's first and last appearance for a positive first price and 0
  otherwise, and the sorted list is then cut to the limit.
\<close>

theorem getTopPerformers_threshold:
  "(\<forall>p \<in> set (getTopPerformers historicalData days limit).
       min (real days * 0.5) 3 \<le> real (pf_daysActive p)
     \<and> appearances (token_key (pf_token p)) historicalData \<noteq> []
     \<and> pf_daysActive p = length (appearances (token_key (pf_token p)) historicalData)
     \<and> periodGrowth p =
         (if price (hd (appearances (token_key (pf_token p)) historicalData)) > 0
          then ((price (last (appearances (token_key (pf_token p)) historicalData))
                   - price (hd (appearances (token_key (pf_token p)) historicalData)))
                 / price (hd (appearances (token_key (pf_token p)) historicalData))) * 100
          else 0)
     \<and> (\<exists>q \<in> set (map snd (collect_performance historicalData)).
           pf_daysActive p = perf_daysActive q
         \<and> periodGrowth p = (if firstPrice q > 0
                             then ((lastPrice q - firstPrice q) / firstPrice q) * 100 else 0)))
   \<and> (5 \<le> days \<longrightarrow> (\<forall>p \<in> set (getTopPerformers historicalData days limit). 3 \<le> pf_daysActive p))
   \<and> (days \<le> 4 \<longrightarrow>
        (\<forall>q \<in> set (map snd (collect_performance historicalData)).
            2 \<le> perf_daysActive q \<longrightarrow>
            to_performer q \<in> set (sort_desc periodGrowth (map to_performer
              (filter (\<lambda>q. min (real days * 0.5) 3 \<le> real (perf_daysActive q))
                      (map snd (collect_performance historicalData)))))))
   \<and> (days \<le> 4 \<longrightarrow> (\<exists>h. \<exists>p \<in> set (getTopPerformers h days 20). pf_daysActive p < 3))
   \<and> getTopPerformers historicalData days limit =
       take limit (sort_desc periodGrowth (map to_performer
         (filter (\<lambda>q. min (real days * 0.5) 3 \<le> real (perf_daysActive q))
                 (map snd (collect_performance historicalData)))))
   \<and> sorted_wrt (\<lambda>a b. periodGrowth b \<le> periodGrowth a)
        (sort_desc periodGrowth (map to_performer
           (filter (\<lambda>q. min (real days * 0.5) 3 \<le> real (perf_daysActive q))
                   (map snd (collect_performance historicalData)))))
   \<and> sorted_wrt (\<lambda>a b. periodGrowth b \<le> periodGrowth a) (getTopPerformers historicalData days limit)
   \<and> length (getTopPerformers historicalData days limit) \<le> limit"
proof -
  have mem: "min (real days * 0.5) 3 \<le> real (pf_daysActive p)
     \<and> appearances (token_key (pf_token p)) historicalData \<noteq> []
     \<and> pf_daysActive p = length (appearances (token_key (pf_token p)) historicalData)
     \<and> periodGrowth p =
         (if price (hd (appearances (token_key (pf_token p)) historicalData)) > 0
          then ((price (last (appearances (token_key (pf_token p)) historicalData))
                   - price (hd (appearances (token_key (pf_token p)) historicalData)))
                 / price (hd (appearances (token_key (pf_token p)) historicalData))) * 100
          else 0)
     \<and> (\<exists>q \<in> set (map snd (collect_performance historicalData)).
           pf_daysActive p = perf_daysActive q
         \<and> periodGrowth p = (if firstPrice q > 0
                             then ((lastPrice q - firstPrice q) / firstPrice q) * 100 else 0))"
    if "p \<in> set (getTopPerformers historicalData days limit)" for p
  proof -
    from that obtain q where q: "q \<in> set (map snd (collect_performance historicalData))"
      and p: "p = to_performer q" and t: "min (real days * 0.5) 3 \<le> real (perf_daysActive q)"
      by (rule getTopPerformers_member)
    from q obtain a as where a: "appearances (token_key (perf_token q)) historicalData = a # as"
      and qa: "q = perf_of a as"
      by (rule collect_performance_member)
    have tok: "pf_token p = perf_token q"
      and da: "pf_daysActive p = perf_daysActive q"
      and pg: "periodGrowth p = (if firstPrice q > 0
                             then ((lastPrice q - firstPrice q) / firstPrice q) * 100 else 0)"
      by (simp_all add: p to_performer_def)
    have f: "perf_daysActive q = length (a # as)" "firstPrice q = price (hd (a # as))"
      "lastPrice q = price (last (a # as))"
      unfolding qa by (rule perf_of_fields)+
    have thr: "min (real days * 0.5) 3 \<le> real (pf_daysActive p)"
      using t by (simp only: da)
    have ne: "appearances (token_key (pf_token p)) historicalData \<noteq> []"
      by (simp add: tok a)
    have len: "pf_daysActive p = length (appearances (token_key (pf_token p)) historicalData)"
      by (simp only: tok a da f)
    have gr: "periodGrowth p =
         (if price (hd (appearances (token_key (pf_token p)) historicalData)) > 0
          then ((price (last (appearances (token_key (pf_token p)) historicalData))
                   - price (hd (appearances (token_key (pf_token p)) historicalData)))
                 / price (hd (appearances (token_key (pf_token p)) historicalData))) * 100
          else 0)"
      by (simp only: tok a pg f)
    have ex: "\<exists>q \<in> set (map snd (collect_performance historicalData)).
           pf_daysActive p = perf_daysActive q
         \<and> periodGrowth p = (if firstPrice q > 0
                             then ((lastPrice q - firstPrice q) / firstPrice q) * 100 else 0)"
      using q da pg by blast
    from thr ne len gr ex show ?thesis by (intro conjI)
  qed
  have floor: "3 \<le> pf_daysActive p"
    if "5 \<le> days" "p \<in> set (getTopPerformers historicalData days limit)" for p
  proof -
    from that(1) have "5 / 2 \<le> min (real days * 0.5) 3" by simp
    with mem [OF that(2)] have "5 / 2 \<le> real (pf_daysActive p)" by linarith
    then show ?thesis by linarith
  qed
  have two: "to_performer q \<in> set (sort_desc periodGrowth (map to_performer
              (filter (\<lambda>q. min (real days * 0.5) 3 \<le> real (perf_daysActive q))
                      (map snd (collect_performance historicalData)))))"
    if "days \<le> 4" "q \<in> set (map snd (collect_performance historicalData))" "2 \<le> perf_daysActive q"
    for q
  proof -
    from that(1) have "min (real days * 0.5) 3 \<le> 2" by simp
    also have "2 \<le> real (perf_daysActive q)" using that(3) by simp
    finally show ?thesis using that(2) by (simp add: set_sort_desc)
  qed
  have under: "\<exists>h. \<exists>p \<in> set (getTopPerformers h days 20). pf_daysActive p < 3" if "days \<le> 4"
  proof -
    from that have "min (real days * 0.5) 3 \<le> 2" by simp
    then have "getTopPerformers two_day_window days 20 =
       [to_performer \<lparr> perf_token = sample_token ''X'' 2 10 5, firstPrice = 1, lastPrice = 2,
                totalVolume = 20, perf_daysActive = 2, perf_maxMarketCap = 5 \<rparr>]"
      by (simp add: getTopPerformers_pipeline two_day_window_performance sort_desc_def)
    then have "\<exists>p \<in> set (getTopPerformers two_day_window days 20). pf_daysActive p < 3"
      by (simp add: to_performer_def)
    then show ?thesis ..
  qed
  have srt: "sorted_wrt (\<lambda>a b. periodGrowth b \<le> periodGrowth a)
        (sort_desc periodGrowth (map to_performer
           (filter (\<lambda>q. min (real days * 0.5) 3 \<le> real (perf_daysActive q))
                   (map snd (collect_performance historicalData)))))"
    by (rule sort_desc_sorted)
  then have srt': "sorted_wrt (\<lambda>a b. periodGrowth b \<le> periodGrowth a)
        (getTopPerformers historicalData days limit)"
    unfolding getTopPerformers_pipeline by (rule sorted_wrt_take_prefix)
  have len: "length (getTopPerformers historicalData days limit) \<le> limit"
    unfolding getTopPerformers_pipeline by simp
  from mem floor two under srt srt' len getTopPerformers_pipeline [of historicalData days limit]
  show ?thesis by blast
qed

text \<open>The weekly report's query keeps a fixed floor of three active days.\<close>

lemma getTopWeeklyPerformers_floor:
  "(\<forall>p \<in> set (getTopWeeklyPerformers ts limit). 3 \<le> wp_daysActive p)
   \<and> sorted_wrt (\<lambda>a b. wp_weeklyGrowth b \<le> wp_weeklyGrowth a) (getTopWeeklyPerformers ts limit)"
proof -
  have "sorted_wrt (\<lambda>a b. weeklyGrowth b \<le> weeklyGrowth a)
          (take limit (sort_desc weeklyGrowth (filter (\<lambda>t. daysActive t \<ge> 3) ts)))"
    by (rule sorted_wrt_take_prefix) (rule sort_desc_sorted)
  then have s: "sorted_wrt (\<lambda>a b. wp_weeklyGrowth b \<le> wp_weeklyGrowth a) (getTopWeeklyPerformers ts limit)"
    by (simp add: getTopWeeklyPerformers_def sorted_wrt_map)
  have "3 \<le> wp_daysActive p" if "p \<in> set (getTopWeeklyPerformers ts limit)" for p
  proof -
    from that obtain t where t: "t \<in> set (take limit (sort_desc weeklyGrowth (filter (\<lambda>t. daysActive t \<ge> 3) ts)))"
      and p: "wp_daysActive p = daysActive t"
      by (auto simp: getTopWeeklyPerformers_def)
    from t have "t \<in> set (sort_desc weeklyGrowth (filter (\<lambda>t. daysActive t \<ge> 3) ts))"
      by (rule in_set_takeD)
    then show ?thesis by (simp add: set_sort_desc p)
  qed
  with s show ?thesis by blast
qed

lemma short_window_performance:
  "collect_performance short_window =
     [(''X'', \<lparr> perf_token = sample_token ''X'' 1 10 5, firstPrice = 1, lastPrice = 1,
                totalVolume = 10, perf_daysActive = 1, perf_maxMarketCap = 5 \<rparr>)]"
  by (simp add: collect_performance_def short_window_def perf_step_def token_key_def
      sample_token_def js_or_def Let_def)

text \<open>
  With a window of two days the threshold is 1, and an asset seen on a single day is returned.
\<close>

theorem getTopPerformers_short_window_counterexample:
  "map pf_daysActive (getTopPerformers short_window 2 20) = [1]
   \<and> min (real (2::nat) * 0.5) 3 = (1::real)"
  by (simp add: getTopPerformers_pipeline short_window_performance sort_desc_def to_performer_def)

lemma steady_days_performance:
  "collect_performance steady_days =
     [(''X'', \<lparr> perf_token = sample_token ''X'' 2 10 7, firstPrice = 1, lastPrice = 2,
                totalVolume = 30, perf_daysActive = 3, perf_maxMarketCap = 7 \<rparr>),
      (''Y'', \<lparr> perf_token = sample_token ''Y'' 1 10 3, firstPrice = 1, lastPrice = 1,
                totalVolume = 10, perf_daysActive = 1, perf_maxMarketCap = 3 \<rparr>)]"
  by (simp add: collect_performance_def steady_days_def perf_step_def token_key_def
      sample_token_def js_or_def Let_def)

lemma steady_days_top:
  "getTopPerformers steady_days 7 20 =
     [to_performer \<lparr> perf_token = sample_token ''X'' 2 10 7, firstPrice = 1, lastPrice = 2,
                totalVolume = 30, perf_daysActive = 3, perf_maxMarketCap = 7 \<rparr>]"
  by (simp add: getTopPerformers_pipeline steady_days_performance sort_desc_def)

lemma steady_days_appearances:
  "appearances ''X'' steady_days =
     [sample_token ''X'' 1 10 5, sample_token ''X'' (3 / 2) 10 6, sample_token ''X'' 2 10 7]"
  by (simp add: appearances_def window_tokens_def steady_days_def token_key_def sample_token_def)

theorem getTopPerformers_threshold_witness:
  "hd (getTopPerformers steady_days 7 20) \<in> set (getTopPerformers steady_days 7 20)
   \<and> (5::nat) \<le> 7
   \<and> token_key (pf_token (hd (getTopPerformers steady_days 7 20))) = ''X''
   \<and> pf_daysActive (hd (getTopPerformers steady_days 7 20)) = 3
   \<and> periodGrowth (hd (getTopPerformers steady_days 7 20)) = 100"
proof -
  let ?p = "hd (getTopPerformers steady_days 7 20)"
  have mem: "?p \<in> set (getTopPerformers steady_days 7 20)"
    by (simp add: steady_days_top)
  have key: "token_key (pf_token ?p) = ''X''"
    by (simp add: steady_days_top to_performer_def token_key_def sample_token_def)
  from getTopPerformers_threshold [of steady_days 7 20, THEN conjunct1, THEN bspec, OF mem]
  have "pf_daysActive ?p = length (appearances (token_key (pf_token ?p)) steady_days)"
    and "periodGrowth ?p =
         (if price (hd (appearances (token_key (pf_token ?p)) steady_days)) > 0
          then ((price (last (appearances (token_key (pf_token ?p)) steady_days))
                   - price (hd (appearances (token_key (pf_token ?p)) steady_days)))
                 / price (hd (appearances (token_key (pf_token ?p)) steady_days))) * 100
          else 0)"
    by blast+
  then have "pf_daysActive ?p = 3" and "periodGrowth ?p = 100"
    by (simp_all add: key steady_days_appearances sample_token_def)
  with mem key show ?thesis by simp
qed

end
